theory Spec2Isabelle
  imports Main
begin

section \<open>View models shared by the cell component and the editor component\<close>

text \<open>
  The two components of \<^verbatim>\<open>interactiveCell.tsx\<close> (class \<^verbatim>\<open>InteractiveCell\<close>) and of the
  editor that follows it in the same file (class \<^verbatim>\<open>NativeEditor\<close>) read the same view
  model of a cell. Only the fields that the handlers below read are kept. A JavaScript
  string is a \<^typ>\<open>string\<close>; an optional field is an \<^typ>\<open>'a option\<close>; a call into the store,
  the message channel, the DOM or the inner editor is an entry of the list of effects of a
  handler, in the order in which the source issues the calls; a handler that can throw
  has an outcome that says whether it returned or threw.
\<close>

datatype CellState = CellState_editing | CellState_init | CellState_executing
  | CellState_finished | CellState_error

record cell_data =
  cell_type :: string
  execution_count :: "nat option"
  outputs :: "string list option"
  messages :: "string list"

record ICell =
  cell_id :: string
  cell_file :: "string option"
  state :: CellState
  data :: cell_data

record ICellViewModel =
  cell :: ICell
  selected :: bool
  focused :: bool
  editable :: bool
  directInput :: bool
  inputBlockCollapseNeeded :: bool
  inputBlockShow :: bool
  inputBlockOpen :: bool
  hideOutput :: bool
  showLineNumbers :: bool
  useQuickEdit :: bool

text \<open>
  The constants of \<^verbatim>\<open>Identifiers\<close> are imported by the source and not defined in it, so
  every function that reads one takes them as a parameter.
\<close>

record Identifiers =
  EditCellId :: string
  EmptyFileName :: string

datatype CursorPos = CursorPos_Top | CursorPos_Bottom | CursorPos_Current

section \<open>The editor component: window-level keys\<close>

datatype OSType = OSType_Unknown | OSType_Windows | OSType_OSX | OSType_Linux

datatype NativeCommandType = NativeCommand_AddToEnd | NativeCommand_RunAll
  | NativeCommand_Save | NativeCommand_ToggleVariableExplorer

datatype command_source = keyboard | mouse

text \<open>The payload of \<^verbatim>\<open>sendMessage(InteractiveWindowMessages.NativeCommand, {command, source})\<close>.\<close>

datatype window_message = NativeCommand NativeCommandType command_source

text \<open>
  The DOM \<^verbatim>\<open>KeyboardEvent\<close> (and React's wrapper of it) that the window listener and
  the cell's wrapper receive. The modifier flags are shared with \<^verbatim>\<open>IKeyboardEvent\<close> below.
\<close>

record modifier_keys =
  shiftKey :: bool
  ctrlKey :: bool
  metaKey :: bool
  altKey :: bool

record KeyboardEvent = modifier_keys +
  key :: string

text \<open>
  What a handler of the editor does, or attempts to do, to the outside: a call of the
  state controller, a message on the channel, a focus request to a mounted cell, a state
  update of the component, or a callback handed to \<^verbatim>\<open>setTimeout\<close> with its delay.
\<close>

datatype deferred = MoveSelectionToExisting string bool CursorPos

datatype editor_effect =
    StateController_save
  | StateController_selectCell string "string option"
  | Props_sendMessage window_message
  | Cell_giveFocus string bool CursorPos
  | SetState_cellVMs "ICellViewModel list"
  | SetTimeout deferred nat

definition sendMessage :: "window_message \<Rightarrow> editor_effect list" where
  "sendMessage m = [Props_sendMessage m]"

definition sendCommand :: "NativeCommandType \<Rightarrow> command_source \<Rightarrow> editor_effect list" where
  "sendCommand command source = sendMessage (NativeCommand command source)"

text \<open>
  A handler of the editor either returns, having issued its calls in order, or throws,
  having issued the calls that came before the throw. Statements run in sequence: what
  follows a statement that throws is not run.
\<close>

datatype js_error = TypeError

datatype outcome = Returns "editor_effect list" | Throws js_error "editor_effect list"

fun andThen :: "outcome \<Rightarrow> outcome \<Rightarrow> outcome" where
  "andThen (Returns xs) (Returns ys) = Returns (xs @ ys)"
| "andThen (Returns xs) (Throws err ys) = Throws err (xs @ ys)"
| "andThen (Throws err xs) next = Throws err xs"

text \<open>
  The handlers reach the store through \<^verbatim>\<open>this.stateController\<close>. The class \<^verbatim>\<open>NativeEditor\<close>
  declares no such field and assigns it nowhere (its constructor only calls \<^verbatim>\<open>super\<close>),
  so in an instance of the class as it is written the field is \<^verbatim>\<open>undefined\<close>, and a call of
  one of its methods throws a \<^verbatim>\<open>TypeError\<close> before the method is entered. The argument
  of \<open>stateController_call\<close> is the call that the handler attempts.
\<close>

definition stateController :: "unit option" where
  "stateController = None"

definition stateController_call :: "editor_effect \<Rightarrow> outcome" where
  "stateController_call attempted =
     (case stateController of
        None \<Rightarrow> Throws TypeError []
      | Some controller \<Rightarrow> Returns [attempted])"

text \<open>
  \<^verbatim>\<open>mainKeyDown\<close>: a \<^verbatim>\<open>switch\<close> on \<^verbatim>\<open>event.key\<close> with the one case \<^verbatim>\<open>'s'\<close>, in which
  \<^verbatim>\<open>this.stateController.save()\<close> comes first and \<^verbatim>\<open>sendCommand\<close> second. The platform comes
  from \<^verbatim>\<open>getOSType()\<close>, which the source imports; it is the first parameter.
\<close>

definition mainKeyDown :: "OSType \<Rightarrow> KeyboardEvent \<Rightarrow> outcome" where
  "mainKeyDown getOSType event =
     (if key event = ''s'' then
        (if ctrlKey event \<or> (metaKey event \<and> getOSType = OSType_OSX)
         then andThen (stateController_call StateController_save)
                (Returns (sendCommand NativeCommand_Save keyboard))
         else Returns [])
      else Returns [])"

text \<open>How often a handler issued a given call.\<close>

definition issued :: "'e \<Rightarrow> 'e list \<Rightarrow> nat" where
  "issued e es = length (filter (\<lambda>x. x = e) es)"

section \<open>The editor component: references, selection and the visibility scan\<close>

text \<open>
  The measures of a DOM element that the scan reads, in whole pixels, as \<^verbatim>\<open>offsetTop\<close>,
  \<^verbatim>\<open>offsetHeight\<close> and \<^verbatim>\<open>clientHeight\<close> are in the DOM; the scan only adds and compares them.
\<close>

record HTMLElement =
  offsetTop :: int
  offsetHeight :: int
  scrollTop :: int
  clientHeight :: int

text \<open>
  The part of a \<^verbatim>\<open>NativeEditor\<close> instance that the handlers read: the cell list of its
  props, and its references. A \<^verbatim>\<open>React.RefObject\<close> is its \<^verbatim>\<open>current\<close> field: \<open>None\<close> (or
  \<open>False\<close> for a cell reference, of which only the presence is read) while nothing is
  mounted. A JavaScript \<^verbatim>\<open>Map\<close> is an association list read with \<^const>\<open>map_of\<close>; its size is
  zero exactly when the list is empty.
\<close>

record NativeEditor =
  cellVMs :: "ICellViewModel list"
  contentPanelScrollRef :: "HTMLElement option"
  cellRefs :: "(string \<times> bool) list"
  cellContainerRefs :: "(string \<times> HTMLElement option) list"

definition Map_has :: "('k \<times> 'v) list \<Rightarrow> 'k \<Rightarrow> bool" where
  "Map_has m k = (map_of m k \<noteq> None)"

definition focusedCellId :: "string \<Rightarrow> bool \<Rightarrow> string option" where
  "focusedCellId cellId focusCode = (if focusCode then Some cellId else None)"

text \<open>
  \<^verbatim>\<open>focusCell\<close>: first \<^verbatim>\<open>this.stateController.selectCell\<close>, then the focus for the cell when
  it is mounted.
\<close>

definition focusCell :: "NativeEditor \<Rightarrow> string \<Rightarrow> bool \<Rightarrow> CursorPos \<Rightarrow> outcome" where
  "focusCell ed cellId focusCode cursorPos =
     andThen
       (stateController_call (StateController_selectCell cellId (focusedCellId cellId focusCode)))
       (Returns (case map_of (cellRefs ed) cellId of
                   Some True \<Rightarrow> [Cell_giveFocus cellId focusCode cursorPos]
                 | _ \<Rightarrow> []))"

text \<open>
  \<^verbatim>\<open>moveSelectionToExisting\<close>: its guard \<^verbatim>\<open>if (this.contentPanelRef)\<close> tests the reference
  object itself, which the field initialiser creates, so the guard always holds.
\<close>

definition moveSelectionToExisting ::
  "NativeEditor \<Rightarrow> string \<Rightarrow> bool \<Rightarrow> CursorPos \<Rightarrow> outcome" where
  "moveSelectionToExisting ed cellId focusCode cursorPos =
     andThen
       (stateController_call (StateController_selectCell cellId (focusedCellId cellId focusCode)))
       (focusCell ed cellId (if focusCode then True else False) cursorPos)"

text \<open>The cells that \<^verbatim>\<open>selectCell\<close> looks through: those of the props that are no message cells.\<close>

definition renderedCells :: "NativeEditor \<Rightarrow> ICell list" where
  "renderedCells ed = filter (\<lambda>c. cell_type (data c) \<noteq> ''messages'') (map cell (cellVMs ed))"

text \<open>
  \<^verbatim>\<open>selectCell\<close>: for a cell that is found, \<^verbatim>\<open>this.stateController.selectCell\<close>; after that,
  in either case, the timer for \<^verbatim>\<open>moveSelectionToExisting\<close>.
\<close>

definition selectCell :: "NativeEditor \<Rightarrow> string \<Rightarrow> bool \<Rightarrow> CursorPos \<Rightarrow> outcome" where
  "selectCell ed ident focusCode cursorPos =
     andThen
       (if find (\<lambda>c. cell_id c = ident) (renderedCells ed) \<noteq> None
        then stateController_call (StateController_selectCell ident (focusedCellId ident focusCode))
        else Returns [])
       (Returns [SetTimeout (MoveSelectionToExisting ident focusCode cursorPos) 1])"

text \<open>
  A timer that expires runs its callback on the editor as it is at that moment, which
  need not be the editor that set the timer.
\<close>

fun runDeferred :: "NativeEditor \<Rightarrow> deferred \<Rightarrow> outcome" where
  "runDeferred ed (MoveSelectionToExisting cellId focusCode cursorPos) =
     moveSelectionToExisting ed cellId focusCode cursorPos"

text \<open>
  The body of the loop of \<^verbatim>\<open>updateVisibleCells\<close> for one cell has three outcomes: leave
  the loop (\<^verbatim>\<open>break\<close>), go on with the cell untouched (\<^verbatim>\<open>continue\<close>, or a condition that
  fails), or replace the cell by a copy with \<^verbatim>\<open>useQuickEdit: false\<close> and set \<^verbatim>\<open>makeChange\<close>.
\<close>

datatype loop_step = Break | Continue | Promote

definition visitCell :: "NativeEditor \<Rightarrow> int \<Rightarrow> int \<Rightarrow> ICellViewModel \<Rightarrow> loop_step" where
  "visitCell ed visibleTop visibleBottom cellVM =
     (if useQuickEdit cellVM \<and> Map_has (cellRefs ed) (cell_id (cell cellVM)) then
        (case map_of (cellContainerRefs ed) (cell_id (cell cellVM)) of
           Some (Some current) \<Rightarrow>
             (let top = offsetTop current;
                  bottom = top + offsetHeight current
              in if top > visibleBottom then Break
                 else if bottom < visibleTop then Continue
                 else Promote)
         | _ \<Rightarrow> Continue)
      else Continue)"

fun scanCells ::
  "NativeEditor \<Rightarrow> int \<Rightarrow> int \<Rightarrow> ICellViewModel list \<Rightarrow> bool \<Rightarrow> ICellViewModel list \<times> bool" where
  "scanCells ed visibleTop visibleBottom [] makeChange = ([], makeChange)"
| "scanCells ed visibleTop visibleBottom (cellVM # rest) makeChange =
     (case visitCell ed visibleTop visibleBottom cellVM of
        Break \<Rightarrow> (cellVM # rest, makeChange)
      | Continue \<Rightarrow>
          (case scanCells ed visibleTop visibleBottom rest makeChange of
             (rest', m) \<Rightarrow> (cellVM # rest', m))
      | Promote \<Rightarrow>
          (case scanCells ed visibleTop visibleBottom rest True of
             (rest', m) \<Rightarrow> (cellVM\<lparr>useQuickEdit := False\<rparr> # rest', m)))"

definition updateVisibleCells :: "NativeEditor \<Rightarrow> editor_effect list" where
  "updateVisibleCells ed =
     (case contentPanelScrollRef ed of
        None \<Rightarrow> []
      | Some current \<Rightarrow>
          if cellContainerRefs ed = [] then []
          else
            (let visibleTop = offsetTop current + scrollTop current;
                 visibleBottom = visibleTop + clientHeight current
             in case scanCells ed visibleTop visibleBottom (cellVMs ed) False of
                  (cellVMs', makeChange) \<Rightarrow>
                    if makeChange then [SetState_cellVMs cellVMs'] else []))"

section \<open>The cell component\<close>

text \<open>
  \<^verbatim>\<open>IKeyboardEvent\<close> as the handlers read it. The optional \<^verbatim>\<open>editorInfo\<close> is there when the
  event comes from the inner editor; its method \<^verbatim>\<open>clear()\<close> and the event's methods
  \<^verbatim>\<open>stopPropagation()\<close> and \<^verbatim>\<open>preventDefault()\<close> are effects.
\<close>

record editor_info =
  contents :: string
  isDirty :: bool
  isSuggesting :: bool

record IKeyboardEvent = modifier_keys +
  code :: string
  editorInfo :: "editor_info option"

text \<open>
  Modelled from the spec: the class \<^verbatim>\<open>InputHistory\<close> is imported by the source and not part
  of it. The spec describes it as "an ordered sequence of previously submitted input
  strings", to which the submitted content is appended "tagged with whether the content
  differs from a prior baseline". The cursor into the sequence, which no handler of this
  file reads or moves, is left out.
\<close>

record InputHistory =
  historyStack :: "(string \<times> bool) list"

definition InputHistory_new :: InputHistory where
  "InputHistory_new = \<lparr>historyStack = []\<rparr>"

definition InputHistory_add :: "InputHistory \<Rightarrow> string \<Rightarrow> bool \<Rightarrow> InputHistory" where
  "InputHistory_add h content typed = h\<lparr>historyStack := historyStack h @ [(content, typed)]\<rparr>"

record IDataScienceExtraSettings =
  showCellInputCode :: bool
  enableGather :: bool
  themeMatplotlibPlots :: bool

record IInteractiveCellProps =
  cellVM :: ICellViewModel
  settings :: IDataScienceExtraSettings
  editExecutionCount :: "string option"

text \<open>
  An instance of \<^verbatim>\<open>InteractiveCell\<close>: its props, its private \<^verbatim>\<open>inputHistory\<close> (\<open>None\<close> is
  \<^verbatim>\<open>undefined\<close>), its state, and whether its two references are mounted.
\<close>

record InteractiveCell =
  props :: IInteractiveCellProps
  inputHistory :: "InputHistory option"
  showingMarkdownEditor :: bool
  wrapperRef :: bool
  codeRef :: bool

definition InteractiveCell_constructor :: "Identifiers \<Rightarrow> IInteractiveCellProps \<Rightarrow> InteractiveCell" where
  "InteractiveCell_constructor ids prop =
     \<lparr>props = prop,
      inputHistory =
        (if cell_id (cell (cellVM prop)) = EditCellId ids then Some InputHistory_new else None),
      showingMarkdownEditor = False,
      wrapperRef = False,
      codeRef = False\<rparr>"

definition getCell :: "InteractiveCell \<Rightarrow> ICell" where
  "getCell c = cell (cellVM (props c))"

definition isCodeCell :: "InteractiveCell \<Rightarrow> bool" where
  "isCodeCell c = (cell_type (data (cell (cellVM (props c)))) = ''code'')"

subsection \<open>The document, as far as the escape handler reads it\<close>

text \<open>
  The elements of the document in document order, and the element that holds focus.
  \<^verbatim>\<open>elementId\<close> stands for the identity of the DOM node, which \<^verbatim>\<open>indexOf\<close> compares.
\<close>

record Element =
  elementId :: nat
  localName :: string
  hasHref :: bool
  tabIndex :: int

record Document =
  documentElements :: "Element list"
  activeElement :: "Element option"

text \<open>\<^verbatim>\<open>document.querySelectorAll('input, button, select, textarea, a[href]')\<close>.\<close>

definition matchesFocusable :: "Element \<Rightarrow> bool" where
  "matchesFocusable i =
     (localName i = ''input'' \<or> localName i = ''button'' \<or> localName i = ''select''
      \<or> localName i = ''textarea'' \<or> (localName i = ''a'' \<and> hasHref i))"

definition querySelectorAll :: "Document \<Rightarrow> Element list" where
  "querySelectorAll doc = filter matchesFocusable (documentElements doc)"

text \<open>\<^verbatim>\<open>Array.prototype.indexOf\<close> (\<open>-1\<close> when absent) and an array read (\<^verbatim>\<open>undefined\<close> out of range).\<close>

fun indexOf :: "'a list \<Rightarrow> 'a \<Rightarrow> int" where
  "indexOf [] x = - 1"
| "indexOf (y # ys) x =
     (if y = x then 0 else (let r = indexOf ys x in if r < 0 then - 1 else r + 1))"

definition arrayAt :: "'a list \<Rightarrow> int \<Rightarrow> 'a option" where
  "arrayAt xs i = (if 0 \<le> i \<and> i < int (length xs) then Some (xs ! nat i) else None)"

text \<open>
  \<^verbatim>\<open>findTabStop\<close>. Its two guards, on the element and on the node list, hold for every
  element and every node list.
\<close>

definition findTabStop :: "int \<Rightarrow> Element \<Rightarrow> Document \<Rightarrow> Element option" where
  "findTabStop direction element doc =
     (let allFocusable = querySelectorAll doc;
          tabable = filter (\<lambda>i. tabIndex i \<ge> 0) allFocusable;
          self = indexOf tabable element
      in if direction \<ge> 0
         then (case arrayAt tabable (self + 1) of Some t \<Rightarrow> Some t | None \<Rightarrow> arrayAt tabable 0)
         else (case arrayAt tabable (self - 1) of Some t \<Rightarrow> Some t | None \<Rightarrow> arrayAt tabable 0))"

subsection \<open>Handlers\<close>

datatype cell_effect =
    Event_stopPropagation
  | Event_preventDefault
  | EditorInfo_clear
  | Props_submitInput string string
  | Props_clickCell string
  | Props_doubleClickCell string
  | Props_toggleInputBlock string
  | Element_focus Element
  | Wrapper_focus
  | CodeRef_giveFocus CursorPos
  | Render_body

definition editCellEscape :: "Document \<Rightarrow> IKeyboardEvent \<Rightarrow> cell_effect list" where
  "editCellEscape doc e =
     (case activeElement doc of
        None \<Rightarrow> []
      | Some focusedElement \<Rightarrow>
          (case editorInfo e of
             None \<Rightarrow> []
           | Some info \<Rightarrow>
               if \<not> isSuggesting info then
                 (case findTabStop 1 focusedElement doc of
                    Some nextTabStop \<Rightarrow> [Element_focus nextTabStop]
                  | None \<Rightarrow> [])
               else []))"

text \<open>
  The loop of \<^verbatim>\<open>editCellSubmit\<close> that walks \<^verbatim>\<open>endPos\<close> down over the newline characters at
  the end of the contents; a read outside the string is \<^verbatim>\<open>undefined\<close>, which is no newline.
\<close>

definition newline :: char where
  "newline = CHR 0x0A"

function trimEndPos :: "string \<Rightarrow> int \<Rightarrow> int" where
  "trimEndPos s endPos =
     (if endPos \<ge> 0 \<and> arrayAt s endPos = Some newline then trimEndPos s (endPos - 1) else endPos)"
  by pat_completeness auto
termination
  by (relation "measure (\<lambda>(s, endPos). nat (endPos + 1))") auto

declare trimEndPos.simps [simp del]

text \<open>\<^verbatim>\<open>contents.slice(0, n)\<close> for an end \<open>n\<close> that is not negative, as it is here.\<close>

definition slice0 :: "string \<Rightarrow> int \<Rightarrow> string" where
  "slice0 s n = take (nat n) s"

definition editCellSubmit :: "InteractiveCell \<Rightarrow> IKeyboardEvent \<Rightarrow> InteractiveCell \<times> cell_effect list" where
  "editCellSubmit c e =
     (case editorInfo e of
        None \<Rightarrow> (c, [])
      | Some info \<Rightarrow>
          if contents info = [] then (c, [])
          else
            (let endPos = trimEndPos (contents info) (int (length (contents info)) - 1);
                 content = slice0 (contents info) (endPos + 1);
                 c' = (case inputHistory c of
                         Some h \<Rightarrow> c\<lparr>inputHistory := Some (InputHistory_add h content (isDirty info))\<rparr>
                       | None \<Rightarrow> c)
             in (c', [Event_stopPropagation, Event_preventDefault, EditorInfo_clear,
                      Props_submitInput content (cell_id (cell (cellVM (props c))))])))"

definition onEditCellKeyDown ::
  "Document \<Rightarrow> InteractiveCell \<Rightarrow> IKeyboardEvent \<Rightarrow> InteractiveCell \<times> cell_effect list" where
  "onEditCellKeyDown doc c e =
     (if code e = ''Escape'' then (c, editCellEscape doc e)
      else if code e = ''Enter'' \<and> shiftKey e then editCellSubmit c e
      else (c, []))"

text \<open>
  \<^verbatim>\<open>onKeyDown\<close>, the handler of the wrapper: for the edit cell it builds an
  \<^verbatim>\<open>IKeyboardEvent\<close> from the React event, without \<^verbatim>\<open>editorInfo\<close>, and passes it on.
\<close>

definition onKeyDown ::
  "Identifiers \<Rightarrow> Document \<Rightarrow> InteractiveCell \<Rightarrow> KeyboardEvent \<Rightarrow> InteractiveCell \<times> cell_effect list" where
  "onKeyDown ids doc c event =
     (if cell_id (getCell c) = EditCellId ids then
        onEditCellKeyDown doc c
          \<lparr>shiftKey = shiftKey event, ctrlKey = ctrlKey event, metaKey = metaKey event,
           altKey = altKey event, code = key event, editorInfo = None\<rparr>
      else (c, []))"

text \<open>
  The click handlers test that the action creator they call exists, which it does for a
  connected component.
\<close>

definition onMouseClick :: "InteractiveCell \<Rightarrow> cell_effect list" where
  "onMouseClick c = [Event_stopPropagation, Props_clickCell (cell_id (cell (cellVM (props c))))]"

definition onMouseDoubleClick :: "InteractiveCell \<Rightarrow> cell_effect list" where
  "onMouseDoubleClick c =
     [Event_stopPropagation, Props_doubleClickCell (cell_id (cell (cellVM (props c))))]"

definition toggleInputBlock :: "InteractiveCell \<Rightarrow> cell_effect list" where
  "toggleInputBlock c = [Props_toggleInputBlock (cell_id (getCell c))]"

definition giveFocus :: "InteractiveCell \<Rightarrow> bool \<Rightarrow> cell_effect list" where
  "giveFocus c giveCodeFocus =
     (if wrapperRef c then [Wrapper_focus] else [])
     @ (if giveCodeFocus then
          (if cell_type (data (cell (cellVM (props c)))) = ''code'' then
             (if codeRef c then [CodeRef_giveFocus CursorPos_Current] else [])
           else [])
        else [])"

definition componentDidUpdate :: "InteractiveCell \<Rightarrow> IInteractiveCellProps \<Rightarrow> cell_effect list" where
  "componentDidUpdate c prevProps =
     (if selected (cellVM (props c)) \<and> \<not> selected (cellVM prevProps)
      then giveFocus c (focused (cellVM (props c)))
      else [])"

text \<open>
  \<^verbatim>\<open>shouldComponentUpdate\<close>. The comparison \<^verbatim>\<open>fastDeepEqual\<close> is the library
  \<^verbatim>\<open>fast-deep-equal\<close>, which decides deep structural equality of two values; it is a
  parameter.
\<close>

definition shouldComponentUpdate ::
  "(IInteractiveCellProps \<Rightarrow> IInteractiveCellProps \<Rightarrow> bool) \<Rightarrow> InteractiveCell
    \<Rightarrow> IInteractiveCellProps \<Rightarrow> bool" where
  "shouldComponentUpdate fastDeepEqual c nextProps = (\<not> fastDeepEqual (props c) nextProps)"

text \<open>
  What the framework does with new props for a mounted class component: it asks
  \<^verbatim>\<open>shouldComponentUpdate\<close>; on \<^verbatim>\<open>true\<close> it installs the props, runs the body of \<^verbatim>\<open>render\<close>
  (the effect \<^const>\<open>Render_body\<close>) and then \<^verbatim>\<open>componentDidUpdate\<close> with the previous props; on
  \<^verbatim>\<open>false\<close> it installs the props and runs neither.
\<close>

definition receiveProps ::
  "(IInteractiveCellProps \<Rightarrow> IInteractiveCellProps \<Rightarrow> bool) \<Rightarrow> InteractiveCell
    \<Rightarrow> IInteractiveCellProps \<Rightarrow> InteractiveCell \<times> cell_effect list" where
  "receiveProps fastDeepEqual c nextProps =
     (if shouldComponentUpdate fastDeepEqual c nextProps
      then (c\<lparr>props := nextProps\<rparr>,
            [Render_body] @ componentDidUpdate (c\<lparr>props := nextProps\<rparr>) (props c))
      else (c\<lparr>props := nextProps\<rparr>, []))"

subsection \<open>Rendering\<close>

text \<open>
  Of the rendered tree only what the properties below speak about is kept: the \<^verbatim>\<open>hidden\<close>
  prop of each of the four buttons of the toolbar (the delete button passes none), and
  for the control strip whether the cell is busy, whether the collapse button is visible
  and the toolbar, which is \<^verbatim>\<open>null\<close> for the edit cell.
\<close>

record cell_toolbar =
  gatherCode_hidden :: bool
  gotoCode_hidden :: bool
  copyCode_hidden :: bool
  deleteCode_hidden :: bool

record cell_controls =
  busy :: bool
  collapseVisible :: bool
  toolbar :: "cell_toolbar option"

datatype rendered = InformationMessages "string list" | NormalCell cell_controls | RenderNull

text \<open>A string that may be \<^verbatim>\<open>undefined\<close> is truthy when it is there and not empty.\<close>

definition truthy :: "string option \<Rightarrow> bool" where
  "truthy s = (case s of None \<Rightarrow> False | Some t \<Rightarrow> t \<noteq> [])"

text \<open>
  \<^verbatim>\<open>renderNormalToolbar\<close>. The first disjunct of \<^verbatim>\<open>hasNoSource\<close>, \<^verbatim>\<open>!cell\<close>, is false: the cell
  is a required part of the view model.
\<close>

definition renderNormalToolbar :: "Identifiers \<Rightarrow> InteractiveCell \<Rightarrow> cell_toolbar" where
  "renderNormalToolbar ids c =
     (let theCell = getCell c;
          hasNoSource = (\<not> truthy (cell_file theCell)
                         \<or> cell_file theCell = Some (EmptyFileName ids))
      in \<lparr>gatherCode_hidden = (\<not> enableGather (settings (props c))),
          gotoCode_hidden = hasNoSource,
          copyCode_hidden = (\<not> hasNoSource),
          deleteCode_hidden = False\<rparr>)"

definition hasOutput :: "InteractiveCell \<Rightarrow> bool" where
  "hasOutput c =
     (state (getCell c) = CellState_finished \<or> state (getCell c) = CellState_error
      \<or> state (getCell c) = CellState_executing)"

definition shouldRenderResults :: "InteractiveCell \<Rightarrow> bool" where
  "shouldRenderResults c =
     (isCodeCell c \<and> hasOutput c
      \<and> (case outputs (data (cell (cellVM (props c)))) of
            None \<Rightarrow> False
          | Some os \<Rightarrow> length os > 0)
      \<and> \<not> hideOutput (cellVM (props c)))"

definition renderControls :: "Identifiers \<Rightarrow> InteractiveCell \<Rightarrow> cell_controls" where
  "renderControls ids c =
     (let isBusy = (state (cell (cellVM (props c))) = CellState_init
                    \<or> state (cell (cellVM (props c))) = CellState_executing);
          collapse = (inputBlockCollapseNeeded (cellVM (props c))
                      \<and> inputBlockShow (cellVM (props c))
                      \<and> \<not> editable (cellVM (props c)) \<and> isCodeCell c);
          isEditOnlyCell = (cell_id (cell (cellVM (props c))) = EditCellId ids)
      in \<lparr>busy = isBusy,
          collapseVisible = collapse,
          toolbar = (if isEditOnlyCell then None else Some (renderNormalToolbar ids c))\<rparr>)"

definition renderNormalCell :: "Identifiers \<Rightarrow> InteractiveCell \<Rightarrow> cell_controls option" where
  "renderNormalCell ids c =
     (let allowsPlainInput = (showCellInputCode (settings (props c))
                              \<or> directInput (cellVM (props c)) \<or> editable (cellVM (props c)));
          shouldRender = (allowsPlainInput \<or> shouldRenderResults c)
      in if shouldRender then Some (renderControls ids c) else None)"

definition render :: "Identifiers \<Rightarrow> InteractiveCell \<Rightarrow> rendered" where
  "render ids c =
     (if cell_type (data (cell (cellVM (props c)))) = ''messages''
      then InformationMessages (messages (data (cell (cellVM (props c)))))
      else (case renderNormalCell ids c of
              Some controls \<Rightarrow> NormalCell controls
            | None \<Rightarrow> RenderNull))"

text \<open>An \<^verbatim>\<open>ImageButton\<close> is shown unless its \<^verbatim>\<open>hidden\<close> prop is true.\<close>

definition shown :: "bool \<Rightarrow> bool" where
  "shown hiddenProp = (\<not> hiddenProp)"

subsection \<open>The life of an instance\<close>

text \<open>
  Everything that can happen to an instance between its construction and its unmounting:
  a key on the wrapper, a key passed up by the inner editor, a click, a double click, a
  click on the collapse button, new props from the parent, and the framework attaching
  or detaching the two references. Each event comes with the document as it is then.
\<close>

datatype cell_event =
    Wrapper_keyDown Document KeyboardEvent
  | Editor_keyDown Document IKeyboardEvent
  | Mouse_click
  | Mouse_doubleClick
  | Collapse_click
  | New_props IInteractiveCellProps
  | Refs_attached bool bool

fun handleEvent ::
  "Identifiers \<Rightarrow> (IInteractiveCellProps \<Rightarrow> IInteractiveCellProps \<Rightarrow> bool) \<Rightarrow> InteractiveCell
    \<Rightarrow> cell_event \<Rightarrow> InteractiveCell \<times> cell_effect list" where
  "handleEvent ids deq c (Wrapper_keyDown doc event) = onKeyDown ids doc c event"
| "handleEvent ids deq c (Editor_keyDown doc e) = onEditCellKeyDown doc c e"
| "handleEvent ids deq c Mouse_click = (c, onMouseClick c)"
| "handleEvent ids deq c Mouse_doubleClick = (c, onMouseDoubleClick c)"
| "handleEvent ids deq c Collapse_click = (c, toggleInputBlock c)"
| "handleEvent ids deq c (New_props nextProps) = receiveProps deq c nextProps"
| "handleEvent ids deq c (Refs_attached w k) = (c\<lparr>wrapperRef := w, codeRef := k\<rparr>, [])"

fun runEvents ::
  "Identifiers \<Rightarrow> (IInteractiveCellProps \<Rightarrow> IInteractiveCellProps \<Rightarrow> bool) \<Rightarrow> InteractiveCell
    \<Rightarrow> cell_event list \<Rightarrow> InteractiveCell" where
  "runEvents ids deq c [] = c"
| "runEvents ids deq c (ev # evs) = runEvents ids deq (fst (handleEvent ids deq c ev)) evs"

text \<open>The events that leave the identity of the cell of the props as it is.\<close>

fun keepsIdentity :: "string \<Rightarrow> cell_event \<Rightarrow> bool" where
  "keepsIdentity ident (New_props nextProps) = (cell_id (cell (cellVM nextProps)) = ident)"
| "keepsIdentity ident _ = True"

section \<open>The properties in the words of the specification\<close>

text \<open>The contents without the newline characters at their end.\<close>

definition stripTrailingNewlines :: "string \<Rightarrow> string" where
  "stripTrailingNewlines s = rev (dropWhile (\<lambda>ch. ch = newline) (rev s))"

text \<open>A submit key: the line-break key with the shift modifier held.\<close>

definition isSubmitKey :: "IKeyboardEvent \<Rightarrow> bool" where
  "isSubmitKey e = (code e = ''Enter'' \<and> shiftKey e)"

text \<open>
  The visible band of the scroll panel, and the mounted container of a cell that the
  editor has rendered.
\<close>

definition visibleBand :: "HTMLElement \<Rightarrow> int \<times> int" where
  "visibleBand panel =
     (offsetTop panel + scrollTop panel, offsetTop panel + scrollTop panel + clientHeight panel)"

definition mountedContainer :: "NativeEditor \<Rightarrow> ICellViewModel \<Rightarrow> HTMLElement option" where
  "mountedContainer ed vm =
     (if Map_has (cellRefs ed) (cell_id (cell vm)) then
        (case map_of (cellContainerRefs ed) (cell_id (cell vm)) of
           Some (Some el) \<Rightarrow> Some el
         | _ \<Rightarrow> None)
      else None)"

text \<open>
  A container intersects the band when it neither starts below the bottom of the band nor
  ends above its top.
\<close>

definition intersectsBand :: "int \<times> int \<Rightarrow> HTMLElement \<Rightarrow> bool" where
  "intersectsBand band el =
     (offsetTop el \<le> snd band \<and> fst band \<le> offsetTop el + offsetHeight el)"

definition becomesVisible :: "NativeEditor \<Rightarrow> int \<times> int \<Rightarrow> ICellViewModel \<Rightarrow> bool" where
  "becomesVisible ed band vm =
     (useQuickEdit vm
      \<and> (case mountedContainer ed vm of None \<Rightarrow> False | Some el \<Rightarrow> intersectsBand band el))"

text \<open>What the scan is to achieve: every quick-edit cell that intersects the band is promoted.\<close>

definition promoteVisible :: "NativeEditor \<Rightarrow> int \<times> int \<Rightarrow> ICellViewModel list \<Rightarrow> ICellViewModel list" where
  "promoteVisible ed band vms =
     map (\<lambda>vm. if becomesVisible ed band vm then vm\<lparr>useQuickEdit := False\<rparr> else vm) vms"

text \<open>
  Document order matches vertical order: along the list, the tops of the mounted
  containers do not decrease.
\<close>

definition verticalOrder :: "NativeEditor \<Rightarrow> ICellViewModel list \<Rightarrow> bool" where
  "verticalOrder ed vms = sorted (map offsetTop (List.map_filter (mountedContainer ed) vms))"

text \<open>
  The tab stops of the document, in document order, and the next one after the focused
  element, wrapping to the first.
\<close>

definition tabStops :: "Document \<Rightarrow> Element list" where
  "tabStops doc = filter (\<lambda>i. matchesFocusable i \<and> tabIndex i \<ge> 0) (documentElements doc)"

definition elementsAfter :: "Document \<Rightarrow> Element \<Rightarrow> Element list" where
  "elementsAfter doc x = tl (dropWhile (\<lambda>i. i \<noteq> x) (documentElements doc))"

definition nextTabStop :: "Document \<Rightarrow> Element \<Rightarrow> Element option" where
  "nextTabStop doc x =
     (case filter (\<lambda>i. matchesFocusable i \<and> tabIndex i \<ge> 0) (elementsAfter doc x) of
        t # _ \<Rightarrow> Some t
      | [] \<Rightarrow> (case tabStops doc of t # _ \<Rightarrow> Some t | [] \<Rightarrow> None))"

definition focusOn :: "Element option \<Rightarrow> cell_effect list" where
  "focusOn t = (case t of None \<Rightarrow> [] | Some el \<Rightarrow> [Element_focus el])"

section \<open>Example values\<close>

text \<open>Concrete cells, instances, events, documents and editors on which the handlers are run.\<close>

definition exampleIds :: Identifiers where
  "exampleIds = \<lparr>EditCellId = ''edit-cell'', EmptyFileName = ''empty-file''\<rparr>"

definition exampleCell :: "string \<Rightarrow> string option \<Rightarrow> ICell" where
  "exampleCell ident f =
     \<lparr>cell_id = ident, cell_file = f, state = CellState_finished,
      data = \<lparr>cell_type = ''code'', execution_count = None, outputs = None, messages = []\<rparr>\<rparr>"

definition exampleVM :: "string \<Rightarrow> bool \<Rightarrow> ICellViewModel" where
  "exampleVM ident quick =
     \<lparr>cell = exampleCell ident None, selected = False, focused = False, editable = True,
      directInput = False, inputBlockCollapseNeeded = False, inputBlockShow = True,
      inputBlockOpen = True, hideOutput = False, showLineNumbers = False,
      useQuickEdit = quick\<rparr>"

definition exampleProps :: "string \<Rightarrow> string option \<Rightarrow> IInteractiveCellProps" where
  "exampleProps ident f =
     \<lparr>cellVM = (exampleVM ident False)\<lparr>cell := exampleCell ident f\<rparr>,
      settings = \<lparr>showCellInputCode = True, enableGather = False, themeMatplotlibPlots = False\<rparr>,
      editExecutionCount = None\<rparr>"

text \<open>A key event of the inner editor with the given key, shift flag and editor contents.\<close>

definition editorKey :: "string \<Rightarrow> bool \<Rightarrow> string \<Rightarrow> IKeyboardEvent" where
  "editorKey k shift text =
     \<lparr>shiftKey = shift, ctrlKey = False, metaKey = False, altKey = False, code = k,
      editorInfo = Some \<lparr>contents = text, isDirty = True, isSuggesting = False\<rparr>\<rparr>"

definition exampleElement :: "nat \<Rightarrow> string \<Rightarrow> int \<Rightarrow> Element" where
  "exampleElement n tag t = \<lparr>elementId = n, localName = tag, hasHref = False, tabIndex = t\<rparr>"

text \<open>
  A document of a button, the editor's text area, a button outside the tab order and an
  input, with the focus in the text area or in the input; and a document in which the
  editor's text area is outside the tab order and holds the focus, between two buttons.
\<close>

definition exampleDocument :: "nat \<Rightarrow> Document" where
  "exampleDocument n =
     \<lparr>documentElements =
        [exampleElement 10 ''button'' 0, exampleElement 11 ''textarea'' 0,
         exampleElement 12 ''button'' (- 1), exampleElement 13 ''input'' 0],
      activeElement = Some (exampleElement n (if n = 11 then ''textarea'' else ''input'') 0)\<rparr>"

definition untabbedEditorDocument :: Document where
  "untabbedEditorDocument =
     \<lparr>documentElements =
        [exampleElement 20 ''button'' 0, exampleElement 21 ''textarea'' (- 1), exampleElement 22 ''button'' 0],
      activeElement = Some (exampleElement 21 ''textarea'' (- 1))\<rparr>"

text \<open>
  An editor with the quick-edit cells \<^verbatim>\<open>c1\<close> and \<^verbatim>\<open>c2\<close>, both mounted, whose containers
  are 50 pixels high and start at the given tops; the panel shows the band from 100 to 500.
\<close>

definition exampleBox :: "int \<Rightarrow> HTMLElement" where
  "exampleBox t = \<lparr>offsetTop = t, offsetHeight = 50, scrollTop = 0, clientHeight = 50\<rparr>"

definition exampleEditor :: "int \<Rightarrow> int \<Rightarrow> NativeEditor" where
  "exampleEditor top1 top2 =
     \<lparr>cellVMs = [exampleVM ''c1'' True, exampleVM ''c2'' True],
      contentPanelScrollRef =
        Some \<lparr>offsetTop = 0, offsetHeight = 400, scrollTop = 100, clientHeight = 400\<rparr>,
      cellRefs = [(''c1'', True), (''c2'', True)],
      cellContainerRefs = [(''c1'', Some (exampleBox top1)), (''c2'', Some (exampleBox top2))]\<rparr>"

text \<open>The example editor a moment later, when a third cell \<^verbatim>\<open>c3\<close> has been rendered and mounted.\<close>

definition laterEditor :: NativeEditor where
  "laterEditor = (exampleEditor 0 120)
     \<lparr>cellVMs := [exampleVM ''c1'' True, exampleVM ''c2'' True, exampleVM ''c3'' False],
      cellRefs := [(''c3'', True), (''c1'', True), (''c2'', True)]\<rparr>"

text \<open>
  Events in the life of an instance for the cell \<open>ident\<close>: a submit key from the editor, new
  props for the same cell, a click, and a submit key on the wrapper.
\<close>

definition exampleEvents :: "string \<Rightarrow> cell_event list" where
  "exampleEvents ident =
     [Editor_keyDown (exampleDocument 11) (editorKey ''Enter'' True ''x = 1''),
      New_props (exampleProps ident (Some ''a.py'')),
      Mouse_click,
      Wrapper_keyDown (exampleDocument 11)
        \<lparr>shiftKey = True, ctrlKey = False, metaKey = False, altKey = False, key = ''Enter''\<rparr>]"

section \<open>Auxiliary facts\<close>

subsection \<open>Trimming the contents\<close>

lemma stripTrailingNewlines_snoc:
  "stripTrailingNewlines (xs @ [ch]) =
     (if ch = newline then stripTrailingNewlines xs else xs @ [ch])"
  by (simp add: stripTrailingNewlines_def)

lemma trimEndPos_take:
  "n \<le> length s \<Longrightarrow>
     take (nat (trimEndPos s (int n - 1) + 1)) s = stripTrailingNewlines (take n s)"
proof (induction n)
  case 0
  then show ?case
    by (simp add: trimEndPos.simps [of s "- 1"] stripTrailingNewlines_def)
next
  case (Suc n)
  then have n: "n < length s" by simp
  have unfold: "trimEndPos s (int (Suc n) - 1) =
      (if s ! n = newline then trimEndPos s (int n - 1) else int n)"
    using n by (subst trimEndPos.simps) (simp add: arrayAt_def)
  show ?case
  proof (cases "s ! n = newline")
    case True
    with Suc n unfold show ?thesis
      by (simp add: take_Suc_conv_app_nth stripTrailingNewlines_snoc)
  next
    case False
    have "nat (int n + 1) = Suc n" by simp
    with False n unfold show ?thesis
      by (simp add: take_Suc_conv_app_nth stripTrailingNewlines_snoc del: of_nat_Suc)
  qed
qed

lemma trimmed_contents:
  "slice0 s (trimEndPos s (int (length s) - 1) + 1) = stripTrailingNewlines s"
  using trimEndPos_take [of "length s" s] by (simp add: slice0_def)

subsection \<open>The visibility scan\<close>

lemma visitCell_Promote:
  "(visitCell ed vt vb vm = Promote) = becomesVisible ed (vt, vb) vm"
  by (auto simp: visitCell_def becomesVisible_def mountedContainer_def intersectsBand_def Let_def
      split: option.splits)

lemma visitCell_Break:
  "(visitCell ed vt vb vm = Break) =
     (useQuickEdit vm \<and> (\<exists>el. mountedContainer ed vm = Some el \<and> vb < offsetTop el))"
  by (auto simp: visitCell_def mountedContainer_def Let_def split: option.splits)

lemma scanCells_frame:
  "scanCells ed vt vb vms mc = (vms', m) \<Longrightarrow>
     list_all2 (\<lambda>a b. b = a \<or> (becomesVisible ed (vt, vb) a \<and> b = a\<lparr>useQuickEdit := False\<rparr>)) vms vms'
     \<and> (m \<longrightarrow> mc \<or> (\<exists>vm \<in> set vms. becomesVisible ed (vt, vb) vm))"
proof (induction vms arbitrary: mc vms' m)
  case Nil
  then show ?case by simp
next
  case (Cons vm rest)
  show ?case
  proof (cases "visitCell ed vt vb vm")
    case Break
    with Cons.prems show ?thesis by (auto simp: list_all2_same list.rel_refl)
  next
    case Continue
    obtain r k where rk: "scanCells ed vt vb rest mc = (r, k)" by (cases "scanCells ed vt vb rest mc")
    from Cons.IH [OF rk] Cons.prems Continue rk show ?thesis by auto
  next
    case Promote
    obtain r k where rk: "scanCells ed vt vb rest True = (r, k)" by (cases "scanCells ed vt vb rest True")
    from Promote have "becomesVisible ed (vt, vb) vm" by (simp add: visitCell_Promote)
    with Cons.IH [OF rk] Cons.prems Promote rk show ?thesis by auto
  qed
qed

lemma mountedContainer_top_mem:
  "vm \<in> set vms \<Longrightarrow> mountedContainer ed vm = Some el \<Longrightarrow>
     offsetTop el \<in> set (map offsetTop (List.map_filter (mountedContainer ed) vms))"
  by (induction vms) (auto simp: map_filter_simps split: option.splits)

lemma verticalOrder_tail: "verticalOrder ed (vm # rest) \<Longrightarrow> verticalOrder ed rest"
  by (cases "mountedContainer ed vm") (simp_all add: verticalOrder_def map_filter_simps)

lemma verticalOrder_below:
  assumes "verticalOrder ed (vm # rest)" "mountedContainer ed vm = Some el" "vb < offsetTop el"
    and "x \<in> set rest"
  shows "\<not> becomesVisible ed (vt, vb) x"
proof (cases "mountedContainer ed x")
  case None
  then show ?thesis by (simp add: becomesVisible_def)
next
  case (Some el')
  with assms(4) have "offsetTop el' \<in> set (map offsetTop (List.map_filter (mountedContainer ed) rest))"
    by (rule_tac mountedContainer_top_mem)
  with assms(1,2) have "offsetTop el \<le> offsetTop el'"
    by (auto simp: verticalOrder_def map_filter_simps)
  with assms(3) Some show ?thesis by (simp add: becomesVisible_def intersectsBand_def)
qed

lemma promoteVisible_none:
  "\<forall>x \<in> set vms. \<not> becomesVisible ed band x \<Longrightarrow> promoteVisible ed band vms = vms"
  by (induction vms) (auto simp: promoteVisible_def)

lemma scanCells_ordered:
  "verticalOrder ed vms \<Longrightarrow>
     scanCells ed vt vb vms mc =
       (promoteVisible ed (vt, vb) vms, mc \<or> (\<exists>vm \<in> set vms. becomesVisible ed (vt, vb) vm))"
proof (induction vms arbitrary: mc)
  case Nil
  then show ?case by (simp add: promoteVisible_def)
next
  case (Cons vm rest)
  note order = verticalOrder_tail [OF Cons.prems]
  show ?case
  proof (cases "visitCell ed vt vb vm")
    case Break
    then obtain el where el: "useQuickEdit vm" "mountedContainer ed vm = Some el" "vb < offsetTop el"
      by (auto simp: visitCell_Break)
    have rest: "\<forall>x \<in> set rest. \<not> becomesVisible ed (vt, vb) x"
      using verticalOrder_below [OF Cons.prems el(2,3)] by blast
    have self: "\<not> becomesVisible ed (vt, vb) vm"
      using el by (simp add: becomesVisible_def intersectsBand_def)
    have "promoteVisible ed (vt, vb) (vm # rest) = vm # rest"
      using rest self by (intro promoteVisible_none) simp
    with Break rest self show ?thesis by simp
  next
    case Continue
    then have "\<not> becomesVisible ed (vt, vb) vm"
      using visitCell_Promote [of ed vt vb vm] by simp
    with Continue Cons.IH [OF order] show ?thesis by (simp add: promoteVisible_def)
  next
    case Promote
    then have "becomesVisible ed (vt, vb) vm" by (simp add: visitCell_Promote)
    with Promote Cons.IH [OF order] show ?thesis by (simp add: promoteVisible_def)
  qed
qed

subsection \<open>Tab stops\<close>

lemma indexOf_absent: "x \<notin> set ys \<Longrightarrow> indexOf ys x = - 1"
  by (induction ys) (auto simp: Let_def)

lemma indexOf_present: "x \<in> set ys \<Longrightarrow> 0 \<le> indexOf ys x"
  by (induction ys) (auto simp: Let_def)

lemma arrayAt_Cons_succ: "0 \<le> i \<Longrightarrow> arrayAt (y # ys) (i + 1) = arrayAt ys i"
  by (auto simp: arrayAt_def nat_add_distrib)

lemma arrayAt_first: "arrayAt ys 0 = (case ys of [] \<Rightarrow> None | t # _ \<Rightarrow> Some t)"
  by (cases ys) (simp_all add: arrayAt_def)

lemma arrayAt_after_indexOf:
  "x \<in> set ys \<Longrightarrow>
     arrayAt ys (indexOf ys x + 1) =
       (case tl (dropWhile (\<lambda>i. i \<noteq> x) ys) of [] \<Rightarrow> None | t # _ \<Rightarrow> Some t)"
proof (induction ys)
  case Nil
  then show ?case by simp
next
  case (Cons y ys)
  show ?case
  proof (cases "y = x")
    case True
    then show ?thesis using arrayAt_Cons_succ [of 0 y ys] by (simp add: arrayAt_first)
  next
    case False
    with Cons.prems have mem: "x \<in> set ys" by simp
    then have "0 \<le> indexOf ys x" by (rule indexOf_present)
    with False Cons.IH [OF mem] show ?thesis
      using arrayAt_Cons_succ [of "indexOf ys x + 1" y ys] by (simp add: Let_def)
  qed
qed

lemma filter_after:
  "P x \<Longrightarrow> filter P (tl (dropWhile (\<lambda>i. i \<noteq> x) xs)) = tl (dropWhile (\<lambda>i. i \<noteq> x) (filter P xs))"
  by (induction xs) auto

lemma tabable_eq_tabStops:
  "filter (\<lambda>i. tabIndex i \<ge> 0) (querySelectorAll doc) = tabStops doc"
  by (simp add: querySelectorAll_def tabStops_def conj_commute)

lemma findTabStop_forward:
  assumes "x \<in> set (tabStops doc)"
  shows "findTabStop 1 x doc = nextTabStop doc x"
proof -
  have P: "matchesFocusable x \<and> 0 \<le> tabIndex x" using assms by (simp add: tabStops_def)
  have "filter (\<lambda>i. matchesFocusable i \<and> 0 \<le> tabIndex i) (elementsAfter doc x)
          = tl (dropWhile (\<lambda>i. i \<noteq> x) (tabStops doc))"
    unfolding elementsAfter_def tabStops_def
    using filter_after [of "\<lambda>i. matchesFocusable i \<and> 0 \<le> tabIndex i" x "documentElements doc"] P
    by simp
  then show ?thesis
    using arrayAt_after_indexOf [OF assms]
    by (simp add: findTabStop_def nextTabStop_def tabable_eq_tabStops arrayAt_first Let_def
        split: list.splits)
qed

subsection \<open>The submit key\<close>

lemma onEditCellKeyDown_submit:
  assumes "isSubmitKey e" and "editorInfo e = Some info" and "contents info \<noteq> []"
  shows "onEditCellKeyDown doc c e =
     ((case inputHistory c of
         None \<Rightarrow> c
       | Some h \<Rightarrow>
           c\<lparr>inputHistory :=
               Some (InputHistory_add h (stripTrailingNewlines (contents info)) (isDirty info))\<rparr>),
      [Event_stopPropagation, Event_preventDefault, EditorInfo_clear,
       Props_submitInput (stripTrailingNewlines (contents info)) (cell_id (getCell c))])"
  using assms
  by (simp add: onEditCellKeyDown_def isSubmitKey_def editCellSubmit_def trimmed_contents
      getCell_def Let_def split: option.split)

lemma onEditCellKeyDown_outside_guard:
  assumes "isSubmitKey e"
    and "editorInfo e = None \<or> (\<exists>info. editorInfo e = Some info \<and> contents info = [])"
  shows "onEditCellKeyDown doc c e = (c, [])"
  using assms
  by (auto simp: onEditCellKeyDown_def isSubmitKey_def editCellSubmit_def)

subsection \<open>Calls through the state controller\<close>

lemma stateController_call_throws: "stateController_call attempted = Throws TypeError []"
  by (simp add: stateController_call_def stateController_def)

subsection \<open>The example editor\<close>

lemma no_containers_none_visible:
  "cellContainerRefs ed = [] \<Longrightarrow> \<not> becomesVisible ed band vm"
  by (simp add: becomesVisible_def mountedContainer_def)

lemma exampleVM_fields:
  "useQuickEdit (exampleVM ident q) = q"
  "cell_id (cell (exampleVM ident q)) = ident"
  by (simp_all add: exampleVM_def exampleCell_def)

lemma exampleEditor_parts:
  "contentPanelScrollRef (exampleEditor t1 t2)
     = Some \<lparr>offsetTop = 0, offsetHeight = 400, scrollTop = 100, clientHeight = 400\<rparr>"
  "cellVMs (exampleEditor t1 t2) = [exampleVM ''c1'' True, exampleVM ''c2'' True]"
  "mountedContainer (exampleEditor t1 t2) (exampleVM ''c1'' q) = Some (exampleBox t1)"
  "mountedContainer (exampleEditor t1 t2) (exampleVM ''c2'' q) = Some (exampleBox t2)"
  by (simp_all add: exampleEditor_def mountedContainer_def Map_has_def exampleVM_def
      exampleCell_def)

lemma exampleEditor_visible:
  "becomesVisible (exampleEditor t1 t2)
      (visibleBand \<lparr>offsetTop = 0, offsetHeight = 400, scrollTop = 100, clientHeight = 400\<rparr>)
      (exampleVM ''c1'' True) = (t1 \<le> 500 \<and> 50 \<le> t1)"
  "becomesVisible (exampleEditor t1 t2)
      (visibleBand \<lparr>offsetTop = 0, offsetHeight = 400, scrollTop = 100, clientHeight = 400\<rparr>)
      (exampleVM ''c2'' True) = (t2 \<le> 500 \<and> 50 \<le> t2)"
  by (auto simp: becomesVisible_def exampleEditor_parts intersectsBand_def visibleBand_def
      exampleBox_def exampleVM_fields)

lemma exampleVM_promoted: "(exampleVM ident True)\<lparr>useQuickEdit := False\<rparr> = exampleVM ident False"
  by (simp add: exampleVM_def)

subsection \<open>The example document and the example keys\<close>

lemma nextTabStop_some: "x \<in> set (tabStops doc) \<Longrightarrow> nextTabStop doc x \<noteq> None"
  by (cases "tabStops doc") (auto simp: nextTabStop_def split: list.splits)

lemma exampleDocument_tabStops:
  "tabStops (exampleDocument n) =
     [exampleElement 10 ''button'' 0, exampleElement 11 ''textarea'' 0, exampleElement 13 ''input'' 0]"
  by (simp add: tabStops_def exampleDocument_def exampleElement_def matchesFocusable_def)

lemma exampleDocument_next:
  "nextTabStop (exampleDocument 11) (exampleElement 11 ''textarea'' 0)
     = Some (exampleElement 13 ''input'' 0)"
  "nextTabStop (exampleDocument 13) (exampleElement 13 ''input'' 0)
     = Some (exampleElement 10 ''button'' 0)"
  by (simp_all add: nextTabStop_def elementsAfter_def tabStops_def exampleDocument_def
      exampleElement_def matchesFocusable_def)

lemma editorKey_fields:
  "code (editorKey k shift text) = k"
  "shiftKey (editorKey k shift text) = shift"
  "editorInfo (editorKey k shift text)
     = Some \<lparr>contents = text, isDirty = True, isSuggesting = False\<rparr>"
  by (simp_all add: editorKey_def)

lemma example_rendered:
  "cell_id ` set (renderedCells (exampleEditor t1 t2)) = {''c1'', ''c2''}"
  "cell_id ` set (renderedCells laterEditor) = {''c1'', ''c2'', ''c3''}"
  "map_of (cellRefs laterEditor) ''c3'' = Some True"
  by (auto simp: renderedCells_def exampleEditor_def laterEditor_def exampleVM_def exampleCell_def)

subsection \<open>The life of an instance\<close>

lemma editCellSubmit_history:
  "(inputHistory (fst (editCellSubmit c e)) = None) = (inputHistory c = None)"
  by (simp add: editCellSubmit_def Let_def split: option.split)

lemma editCellSubmit_props: "props (fst (editCellSubmit c e)) = props c"
  by (simp add: editCellSubmit_def Let_def split: option.split)

lemma onEditCellKeyDown_history:
  "(inputHistory (fst (onEditCellKeyDown doc c e)) = None) = (inputHistory c = None)"
  by (simp add: onEditCellKeyDown_def editCellSubmit_history)

lemma onEditCellKeyDown_props: "props (fst (onEditCellKeyDown doc c e)) = props c"
  by (simp add: onEditCellKeyDown_def editCellSubmit_props)

lemma handleEvent_history:
  "(inputHistory (fst (handleEvent ids deq c ev)) = None) = (inputHistory c = None)"
  by (cases ev) (simp_all add: onKeyDown_def onEditCellKeyDown_history receiveProps_def)

lemma handleEvent_identity:
  "keepsIdentity (cell_id (getCell c)) ev \<Longrightarrow>
     cell_id (getCell (fst (handleEvent ids deq c ev))) = cell_id (getCell c)"
  by (cases ev) (simp_all add: onKeyDown_def onEditCellKeyDown_props receiveProps_def getCell_def)

lemma runEvents_history:
  "(inputHistory (runEvents ids deq c evs) = None) = (inputHistory c = None)"
  by (induction evs arbitrary: c) (simp_all add: handleEvent_history)

lemma runEvents_identity:
  "\<forall>ev \<in> set evs. keepsIdentity (cell_id (getCell c)) ev \<Longrightarrow>
     cell_id (getCell (runEvents ids deq c evs)) = cell_id (getCell c)"
  by (induction evs arbitrary: c) (simp_all add: handleEvent_identity)

lemma exampleIds_fields:
  "EditCellId exampleIds = ''edit-cell''"
  "EmptyFileName exampleIds = ''empty-file''"
  by (simp_all add: exampleIds_def)

lemma exampleProps_identity: "cell_id (cell (cellVM (exampleProps ident f))) = ident"
  by (simp add: exampleProps_def exampleCell_def)

lemma exampleEvents_keep: "\<forall>ev \<in> set (exampleEvents ident). keepsIdentity ident ev"
  by (simp add: exampleEvents_def exampleProps_identity)

lemma example_render:
  "render exampleIds (InteractiveCell_constructor exampleIds (exampleProps ''c1'' f))
     = NormalCell (renderControls exampleIds
         (InteractiveCell_constructor exampleIds (exampleProps ''c1'' f)))"
  "toolbar (renderControls exampleIds
       (InteractiveCell_constructor exampleIds (exampleProps ''c1'' f)))
     = Some (renderNormalToolbar exampleIds
         (InteractiveCell_constructor exampleIds (exampleProps ''c1'' f)))"
  "cell_file (getCell (InteractiveCell_constructor exampleIds (exampleProps ''c1'' f))) = f"
  by (simp_all add: render_def renderNormalCell_def renderControls_def
      InteractiveCell_constructor_def exampleProps_def exampleCell_def exampleIds_def
      getCell_def Let_def)

section \<open>Submitting the contents of the editor\<close>

text \<open>
  Claim C1, as amended. For every key event of the submit combination (the line-break key
  with shift held): when it carries the inner editor's info with contents that are not
  empty, the handler drops the newline characters at the end of the contents, appends the
  trimmed content to the input history when the instance owns one, tagged with the
  editor's dirty flag, and changes nothing else of the instance; it clears the editor and
  dispatches \<^verbatim>\<open>submitInput\<close> with the trimmed text and the identity of the cell. When the
  event carries no editor info, or the contents of the editor are empty, the handler does
  nothing: the instance stays as it is and no call is issued. The contents
  \<^verbatim>\<open>"a\nb\n\n\n"\<close> give the history entry and the submitted text \<^verbatim>\<open>"a\nb"\<close>.
\<close>

theorem editCellSubmit_trims_records_clears_submits:
  assumes "isSubmitKey e"
  shows "(editorInfo e = Some info \<and> contents info \<noteq> [] \<longrightarrow>
            onEditCellKeyDown doc c e =
              ((case inputHistory c of
                  None \<Rightarrow> c
                | Some h \<Rightarrow>
                    c\<lparr>inputHistory :=
                        Some (h\<lparr>historyStack := historyStack h
                                  @ [(stripTrailingNewlines (contents info), isDirty info)]\<rparr>)\<rparr>),
               [Event_stopPropagation, Event_preventDefault, EditorInfo_clear,
                Props_submitInput (stripTrailingNewlines (contents info)) (cell_id (getCell c))]))
         \<and> (editorInfo e = None \<longrightarrow> onEditCellKeyDown doc c e = (c, []))
         \<and> (editorInfo e = Some info \<and> contents info = [] \<longrightarrow>
              onEditCellKeyDown doc c e = (c, []))"
proof -
  have inside: "editorInfo e = Some info \<and> contents info \<noteq> [] \<longrightarrow>
            onEditCellKeyDown doc c e =
              ((case inputHistory c of
                  None \<Rightarrow> c
                | Some h \<Rightarrow>
                    c\<lparr>inputHistory :=
                        Some (h\<lparr>historyStack := historyStack h
                                  @ [(stripTrailingNewlines (contents info), isDirty info)]\<rparr>)\<rparr>),
               [Event_stopPropagation, Event_preventDefault, EditorInfo_clear,
                Props_submitInput (stripTrailingNewlines (contents info)) (cell_id (getCell c))])"
  proof
    assume g: "editorInfo e = Some info \<and> contents info \<noteq> []"
    then have "editorInfo e = Some info" and "contents info \<noteq> []" by simp_all
    from onEditCellKeyDown_submit [OF assms this, of doc c]
    show "onEditCellKeyDown doc c e =
              ((case inputHistory c of
                  None \<Rightarrow> c
                | Some h \<Rightarrow>
                    c\<lparr>inputHistory :=
                        Some (h\<lparr>historyStack := historyStack h
                                  @ [(stripTrailingNewlines (contents info), isDirty info)]\<rparr>)\<rparr>),
               [Event_stopPropagation, Event_preventDefault, EditorInfo_clear,
                Props_submitInput (stripTrailingNewlines (contents info)) (cell_id (getCell c))])"
      by (simp add: InputHistory_add_def split: option.split)
  qed
  have none: "editorInfo e = None \<longrightarrow> onEditCellKeyDown doc c e = (c, [])"
    using onEditCellKeyDown_outside_guard [OF assms, of doc c] by blast
  have empty: "editorInfo e = Some info \<and> contents info = [] \<longrightarrow>
      onEditCellKeyDown doc c e = (c, [])"
    using onEditCellKeyDown_outside_guard [OF assms, of doc c] by blast
  from inside none empty show ?thesis by blast
qed

theorem editCellSubmit_trims_records_clears_submits_witness:
  "isSubmitKey (editorKey ''Enter'' True [CHR ''a'', CHR 0x0A, CHR ''b'', CHR 0x0A, CHR 0x0A, CHR 0x0A])
   \<and> onEditCellKeyDown (exampleDocument 11)
        (InteractiveCell_constructor exampleIds (exampleProps ''edit-cell'' None))
        (editorKey ''Enter'' True [CHR ''a'', CHR 0x0A, CHR ''b'', CHR 0x0A, CHR 0x0A, CHR 0x0A])
      = ((InteractiveCell_constructor exampleIds (exampleProps ''edit-cell'' None))
           \<lparr>inputHistory := Some \<lparr>historyStack = [([CHR ''a'', CHR 0x0A, CHR ''b''], True)]\<rparr>\<rparr>,
         [Event_stopPropagation, Event_preventDefault, EditorInfo_clear,
          Props_submitInput [CHR ''a'', CHR 0x0A, CHR ''b''] ''edit-cell''])
   \<and> onEditCellKeyDown (exampleDocument 11)
        (InteractiveCell_constructor exampleIds (exampleProps ''c1'' None))
        (editorKey ''Enter'' True [CHR ''a'', CHR 0x0A, CHR ''b'', CHR 0x0A, CHR 0x0A, CHR 0x0A])
      = (InteractiveCell_constructor exampleIds (exampleProps ''c1'' None),
         [Event_stopPropagation, Event_preventDefault, EditorInfo_clear,
          Props_submitInput [CHR ''a'', CHR 0x0A, CHR ''b''] ''c1''])
   \<and> isSubmitKey \<lparr>shiftKey = True, ctrlKey = False, metaKey = False, altKey = False, code = ''Enter'', editorInfo = None\<rparr>
   \<and> onEditCellKeyDown (exampleDocument 11)
        (InteractiveCell_constructor exampleIds (exampleProps ''edit-cell'' None))
        \<lparr>shiftKey = True, ctrlKey = False, metaKey = False, altKey = False, code = ''Enter'', editorInfo = None\<rparr>
      = (InteractiveCell_constructor exampleIds (exampleProps ''edit-cell'' None), [])
   \<and> isSubmitKey (editorKey ''Enter'' True [])
   \<and> onEditCellKeyDown (exampleDocument 11)
        (InteractiveCell_constructor exampleIds (exampleProps ''c1'' None))
        (editorKey ''Enter'' True [])
      = (InteractiveCell_constructor exampleIds (exampleProps ''c1'' None), [])"
  using editCellSubmit_trims_records_clears_submits
      [of "editorKey ''Enter'' True [CHR ''a'', CHR 0x0A, CHR ''b'', CHR 0x0A, CHR 0x0A, CHR 0x0A]"
          "\<lparr>contents = [CHR ''a'', CHR 0x0A, CHR ''b'', CHR 0x0A, CHR 0x0A, CHR 0x0A],
            isDirty = True, isSuggesting = False\<rparr>"
          "exampleDocument 11"
          "InteractiveCell_constructor exampleIds (exampleProps ''edit-cell'' None)"]
    editCellSubmit_trims_records_clears_submits
      [of "editorKey ''Enter'' True [CHR ''a'', CHR 0x0A, CHR ''b'', CHR 0x0A, CHR 0x0A, CHR 0x0A]"
          "\<lparr>contents = [CHR ''a'', CHR 0x0A, CHR ''b'', CHR 0x0A, CHR 0x0A, CHR 0x0A],
            isDirty = True, isSuggesting = False\<rparr>"
          "exampleDocument 11"
          "InteractiveCell_constructor exampleIds (exampleProps ''c1'' None)"]
    editCellSubmit_trims_records_clears_submits
      [of "\<lparr>shiftKey = True, ctrlKey = False, metaKey = False, altKey = False, code = ''Enter'', editorInfo = None\<rparr>"
          "\<lparr>contents = [], isDirty = True, isSuggesting = False\<rparr>"
          "exampleDocument 11"
          "InteractiveCell_constructor exampleIds (exampleProps ''edit-cell'' None)"]
    editCellSubmit_trims_records_clears_submits
      [of "editorKey ''Enter'' True []"
          "\<lparr>contents = [], isDirty = True, isSuggesting = False\<rparr>"
          "exampleDocument 11"
          "InteractiveCell_constructor exampleIds (exampleProps ''c1'' None)"]
  by (simp add: isSubmitKey_def editorKey_def InteractiveCell_constructor_def exampleIds_def
      exampleProps_def exampleVM_def exampleCell_def InputHistory_new_def getCell_def
      stripTrailingNewlines_def newline_def)

text \<open>
  As stated for every submit key the claim fails: with an empty editor the guard
  \<^verbatim>\<open>e.editorInfo && e.editorInfo.contents\<close> is false, and the handler neither records,
  nor clears, nor dispatches anything.
\<close>

theorem editCellSubmit_empty_contents_counterexample:
  "isSubmitKey (editorKey ''Enter'' True [])
   \<and> onEditCellKeyDown (exampleDocument 11)
        (InteractiveCell_constructor exampleIds (exampleProps ''edit-cell'' None))
        (editorKey ''Enter'' True [])
      = (InteractiveCell_constructor exampleIds (exampleProps ''edit-cell'' None), [])"
  by (simp add: isSubmitKey_def editorKey_def onEditCellKeyDown_def editCellSubmit_def)

section \<open>The visibility scan promotes the cells that came into view\<close>

text \<open>
  Claim C2, as amended. Provided document order matches vertical order (along the cell
  list the tops of the mounted containers do not decrease), a visibility scan of an editor
  whose scroll panel is mounted clears the quick-edit flag of every quick-edit cell whose
  mounted container intersects the visible band and leaves every other cell as it is, in
  particular the cells whose containers lie entirely above or entirely below the band;
  all promotions are applied in exactly one state update, and no update is issued when
  there is nothing to promote. For the cells \<^verbatim>\<open>c1\<close> (quick-edit, above the band) and \<^verbatim>\<open>c2\<close>
  (quick-edit, in the band), one scan clears the flag of \<^verbatim>\<open>c2\<close> and leaves that of \<^verbatim>\<open>c1\<close> set.
\<close>

theorem updateVisibleCells_promotes_visible:
  assumes "contentPanelScrollRef ed = Some panel" and "verticalOrder ed (cellVMs ed)"
  shows "updateVisibleCells ed =
     (if \<exists>vm \<in> set (cellVMs ed). becomesVisible ed (visibleBand panel) vm
      then [SetState_cellVMs (promoteVisible ed (visibleBand panel) (cellVMs ed))]
      else [])"
proof (cases "cellContainerRefs ed = []")
  case True
  with assms(1) show ?thesis
    by (simp add: updateVisibleCells_def no_containers_none_visible)
next
  case False
  have band: "visibleBand panel =
      (offsetTop panel + scrollTop panel, offsetTop panel + scrollTop panel + clientHeight panel)"
    by (simp add: visibleBand_def)
  show ?thesis
    using assms(1) False
      scanCells_ordered [OF assms(2), of "offsetTop panel + scrollTop panel"
        "offsetTop panel + scrollTop panel + clientHeight panel" False]
    by (simp add: updateVisibleCells_def band Let_def)
qed

theorem updateVisibleCells_promotes_visible_witness:
  "contentPanelScrollRef (exampleEditor 0 120)
     = Some \<lparr>offsetTop = 0, offsetHeight = 400, scrollTop = 100, clientHeight = 400\<rparr>
   \<and> verticalOrder (exampleEditor 0 120) (cellVMs (exampleEditor 0 120))
   \<and> cellVMs (exampleEditor 0 120) = [exampleVM ''c1'' True, exampleVM ''c2'' True]
   \<and> updateVisibleCells (exampleEditor 0 120)
       = [SetState_cellVMs [exampleVM ''c1'' True, exampleVM ''c2'' False]]"
proof -
  have ord: "verticalOrder (exampleEditor 0 120) (cellVMs (exampleEditor 0 120))"
    by (simp add: verticalOrder_def exampleEditor_parts map_filter_simps exampleBox_def)
  have "updateVisibleCells (exampleEditor 0 120)
       = [SetState_cellVMs [exampleVM ''c1'' True, exampleVM ''c2'' False]]"
    using updateVisibleCells_promotes_visible [OF exampleEditor_parts(1) ord]
    by (simp add: exampleEditor_parts(2) exampleEditor_visible promoteVisible_def
        exampleVM_promoted)
  with ord show ?thesis by (simp add: exampleEditor_parts)
qed

text \<open>
  Without the proviso the claim fails, because the loop leaves at the first quick-edit
  container that starts below the band: when the container of \<^verbatim>\<open>c1\<close> starts at 900, below
  the band from 100 to 500, and that of \<^verbatim>\<open>c2\<close> at 120, inside it, the scan stops at \<^verbatim>\<open>c1\<close>,
  never looks at \<^verbatim>\<open>c2\<close> and issues no state update.
\<close>

theorem updateVisibleCells_out_of_order_counterexample:
  "cellVMs (exampleEditor 900 120) = [exampleVM ''c1'' True, exampleVM ''c2'' True]
   \<and> contentPanelScrollRef (exampleEditor 900 120)
       = Some \<lparr>offsetTop = 0, offsetHeight = 400, scrollTop = 100, clientHeight = 400\<rparr>
   \<and> becomesVisible (exampleEditor 900 120)
        (visibleBand \<lparr>offsetTop = 0, offsetHeight = 400, scrollTop = 100, clientHeight = 400\<rparr>)
        (exampleVM ''c2'' True)
   \<and> \<not> becomesVisible (exampleEditor 900 120)
        (visibleBand \<lparr>offsetTop = 0, offsetHeight = 400, scrollTop = 100, clientHeight = 400\<rparr>)
        (exampleVM ''c1'' True)
   \<and> updateVisibleCells (exampleEditor 900 120) = []"
proof -
  have "updateVisibleCells (exampleEditor 900 120) = []"
    by (simp add: updateVisibleCells_def exampleEditor_def visitCell_def Map_has_def
        exampleVM_def exampleCell_def exampleBox_def Let_def)
  then show ?thesis by (simp add: exampleEditor_parts exampleEditor_visible)
qed

section \<open>Deeply equal props skip the render\<close>

text \<open>
  Claim C3. For all props \<open>P1\<close>, the props of the instance at its last render, and \<open>P2\<close>, the
  props that arrive, that \<^verbatim>\<open>fast-deep-equal\<close> finds deeply equal: \<^verbatim>\<open>shouldComponentUpdate\<close>
  returns false, so the update installs the props and runs neither the body of \<^verbatim>\<open>render\<close>
  nor anything else.
\<close>

theorem shouldComponentUpdate_skips_deep_equal_props:
  assumes "fastDeepEqual (props c) nextProps"
  shows "\<not> shouldComponentUpdate fastDeepEqual c nextProps
         \<and> receiveProps fastDeepEqual c nextProps = (c\<lparr>props := nextProps\<rparr>, [])
         \<and> Render_body \<notin> set (snd (receiveProps fastDeepEqual c nextProps))"
  using assms by (simp add: shouldComponentUpdate_def receiveProps_def)

theorem shouldComponentUpdate_skips_deep_equal_props_witness:
  "props (InteractiveCell_constructor exampleIds (exampleProps ''c1'' None))
     = exampleProps ''c1'' None
   \<and> \<not> shouldComponentUpdate (\<lambda>a b. a = b)
         (InteractiveCell_constructor exampleIds (exampleProps ''c1'' None))
         (exampleProps ''c1'' None)
   \<and> receiveProps (\<lambda>a b. a = b)
         (InteractiveCell_constructor exampleIds (exampleProps ''c1'' None))
         (exampleProps ''c1'' None)
       = (InteractiveCell_constructor exampleIds (exampleProps ''c1'' None), [])"
proof -
  have same: "props (InteractiveCell_constructor exampleIds (exampleProps ''c1'' None))
     = exampleProps ''c1'' None"
    by (simp add: InteractiveCell_constructor_def)
  then have unchanged: "(InteractiveCell_constructor exampleIds (exampleProps ''c1'' None))
        \<lparr>props := exampleProps ''c1'' None\<rparr>
     = InteractiveCell_constructor exampleIds (exampleProps ''c1'' None)"
    by (simp add: InteractiveCell_constructor_def)
  from same unchanged
    shouldComponentUpdate_skips_deep_equal_props
      [of "\<lambda>a b. a = b" "InteractiveCell_constructor exampleIds (exampleProps ''c1'' None)"
          "exampleProps ''c1'' None"]
  show ?thesis by simp
qed

section \<open>Window-level save shortcut\<close>

text \<open>
  Claim C4. The claim is that a window-level keydown of \<^verbatim>\<open>s\<close> with ctrl held, or with the
  command modifier held on the Apple platform, dispatches exactly one save and exactly
  one \<^verbatim>\<open>NativeCommand\<close> message with command Save and source keyboard, and that every other
  key event dispatches neither. The handler attempts the first, in this order, but the
  save goes through \<^verbatim>\<open>this.stateController\<close>, which is undefined: on the save shortcut the
  handler throws a \<^verbatim>\<open>TypeError\<close> before it has issued anything, so neither the save nor the
  message is dispatched. On every other key event, an \<^verbatim>\<open>s\<close> without ctrl and without the
  command modifier on the Apple platform included, it returns and has issued nothing.
\<close>

theorem mainKeyDown_save_throws:
  "mainKeyDown os event =
     (if key event = ''s'' \<and> (ctrlKey event \<or> (metaKey event \<and> os = OSType_OSX))
      then Throws TypeError []
      else Returns [])"
  by (simp add: mainKeyDown_def stateController_call_throws)

theorem mainKeyDown_save_throws_witness:
  "mainKeyDown OSType_Windows
      \<lparr>shiftKey = False, ctrlKey = True, metaKey = False, altKey = False, key = ''s''\<rparr>
     = Throws TypeError []
   \<and> mainKeyDown OSType_OSX
      \<lparr>shiftKey = False, ctrlKey = False, metaKey = True, altKey = False, key = ''s''\<rparr>
     = Throws TypeError []
   \<and> mainKeyDown OSType_Windows
      \<lparr>shiftKey = False, ctrlKey = False, metaKey = True, altKey = False, key = ''s''\<rparr>
     = Returns []
   \<and> mainKeyDown OSType_OSX
      \<lparr>shiftKey = False, ctrlKey = False, metaKey = False, altKey = False, key = ''s''\<rparr>
     = Returns []
   \<and> mainKeyDown OSType_OSX
      \<lparr>shiftKey = False, ctrlKey = True, metaKey = True, altKey = False, key = ''a''\<rparr>
     = Returns []"
  using mainKeyDown_save_throws [of OSType_Windows
      "\<lparr>shiftKey = False, ctrlKey = True, metaKey = False, altKey = False, key = ''s''\<rparr>"]
    mainKeyDown_save_throws [of OSType_OSX
      "\<lparr>shiftKey = False, ctrlKey = False, metaKey = True, altKey = False, key = ''s''\<rparr>"]
    mainKeyDown_save_throws [of OSType_Windows
      "\<lparr>shiftKey = False, ctrlKey = False, metaKey = True, altKey = False, key = ''s''\<rparr>"]
    mainKeyDown_save_throws [of OSType_OSX
      "\<lparr>shiftKey = False, ctrlKey = False, metaKey = False, altKey = False, key = ''s''\<rparr>"]
    mainKeyDown_save_throws [of OSType_OSX
      "\<lparr>shiftKey = False, ctrlKey = True, metaKey = True, altKey = False, key = ''a''\<rparr>"]
  by simp

section \<open>Go to source and copy to source\<close>

text \<open>
  Claim C5. For every cell that is rendered as a normal cell (no message cell) with a
  toolbar: the go-to-source button is shown exactly when the cell has a source file, that
  is a \<^verbatim>\<open>file\<close> field that is there, is not the empty string and is not the empty-file
  sentinel; and the copy-to-source button is shown exactly when the go-to-source button
  is not.
\<close>

theorem toolbar_goto_and_copy_visibility:
  assumes "render ids c = NormalCell controls" and "toolbar controls = Some tb"
  shows "shown (gotoCode_hidden tb)
           = (\<exists>f. cell_file (getCell c) = Some f \<and> f \<noteq> [] \<and> f \<noteq> EmptyFileName ids)
         \<and> shown (copyCode_hidden tb) = (\<not> shown (gotoCode_hidden tb))"
proof -
  from assms(1) have "renderNormalCell ids c = Some controls"
    by (simp add: render_def split: if_splits option.splits)
  then have "controls = renderControls ids c"
    by (simp add: renderNormalCell_def Let_def split: if_splits)
  with assms(2) have tb: "tb = renderNormalToolbar ids c"
    by (simp add: renderControls_def Let_def split: if_splits)
  show ?thesis
    by (cases "cell_file (getCell c)")
      (auto simp: tb renderNormalToolbar_def shown_def truthy_def Let_def)
qed

theorem toolbar_goto_and_copy_visibility_witness:
  "shown (gotoCode_hidden (renderNormalToolbar exampleIds
       (InteractiveCell_constructor exampleIds (exampleProps ''c1'' (Some ''a.py'')))))
   \<and> \<not> shown (copyCode_hidden (renderNormalToolbar exampleIds
       (InteractiveCell_constructor exampleIds (exampleProps ''c1'' (Some ''a.py'')))))
   \<and> \<not> shown (gotoCode_hidden (renderNormalToolbar exampleIds
       (InteractiveCell_constructor exampleIds (exampleProps ''c1'' (Some ''empty-file'')))))
   \<and> shown (copyCode_hidden (renderNormalToolbar exampleIds
       (InteractiveCell_constructor exampleIds (exampleProps ''c1'' (Some ''empty-file'')))))
   \<and> \<not> shown (gotoCode_hidden (renderNormalToolbar exampleIds
       (InteractiveCell_constructor exampleIds (exampleProps ''c1'' None))))
   \<and> shown (copyCode_hidden (renderNormalToolbar exampleIds
       (InteractiveCell_constructor exampleIds (exampleProps ''c1'' None))))"
  using toolbar_goto_and_copy_visibility [OF example_render(1) example_render(2), of "Some ''a.py''"]
    toolbar_goto_and_copy_visibility [OF example_render(1) example_render(2), of "Some ''empty-file''"]
    toolbar_goto_and_copy_visibility [OF example_render(1) example_render(2), of None]
  by (simp add: example_render(3) exampleIds_fields)

section \<open>Selecting a cell\<close>

text \<open>
  Claim C6. The claim is that \<^verbatim>\<open>selectCell\<close> for an identity that is not among the rendered
  cells leaves the selection alone at first and changes it once the cell is rendered, and
  that for an identity among the rendered cells it changes the selection at once and
  applies the focus from a timer of minimal delay. The code attempts this, but every
  change of the selection goes through \<^verbatim>\<open>this.stateController\<close>, which is undefined. For an
  identity among the rendered cells (the cells of the props that are no message cells)
  \<^verbatim>\<open>selectCell\<close> throws a \<^verbatim>\<open>TypeError\<close> before it has selected anything and before it has set
  the timer. For any other identity it only sets the timer of delay 1; but the callback of
  the timer, \<^verbatim>\<open>moveSelectionToExisting\<close>, throws in whatever state the editor is when the
  timer expires, also when the cell is rendered and mounted by then, and so does
  \<^verbatim>\<open>focusCell\<close>: no selection is made and no focus is given.
\<close>

theorem selectCell_throws:
  "selectCell ed ident focusCode cursorPos =
     (if ident \<in> cell_id ` set (renderedCells ed)
      then Throws TypeError []
      else Returns [SetTimeout (MoveSelectionToExisting ident focusCode cursorPos) 1])
   \<and> runDeferred ed' (MoveSelectionToExisting ident focusCode cursorPos) = Throws TypeError []
   \<and> focusCell ed' ident focusCode cursorPos = Throws TypeError []"
  by (auto simp: selectCell_def find_None_iff moveSelectionToExisting_def focusCell_def
      stateController_call_throws)

theorem selectCell_throws_witness:
  "''c2'' \<in> cell_id ` set (renderedCells (exampleEditor 0 120))
   \<and> selectCell (exampleEditor 0 120) ''c2'' True CursorPos_Current = Throws TypeError []
   \<and> ''c3'' \<notin> cell_id ` set (renderedCells (exampleEditor 0 120))
   \<and> selectCell (exampleEditor 0 120) ''c3'' True CursorPos_Current
       = Returns [SetTimeout (MoveSelectionToExisting ''c3'' True CursorPos_Current) 1]
   \<and> ''c3'' \<in> cell_id ` set (renderedCells laterEditor)
   \<and> map_of (cellRefs laterEditor) ''c3'' = Some True
   \<and> runDeferred laterEditor (MoveSelectionToExisting ''c3'' True CursorPos_Current)
       = Throws TypeError []"
  using selectCell_throws [of "exampleEditor 0 120" "''c2''" True CursorPos_Current laterEditor]
    selectCell_throws [of "exampleEditor 0 120" "''c3''" True CursorPos_Current laterEditor]
  by (simp add: example_rendered)

section \<open>The submit key does not travel further\<close>

text \<open>
  Claim C7, as amended. For every key event of the submit combination: when it carries the
  inner editor's info with contents that are not empty, the handler stops the propagation
  of the event once and prevents its default action once; when it carries no editor info,
  or the contents of the editor are empty, the handler neither stops the event nor
  prevents its default action.
\<close>

theorem editCellSubmit_stops_event:
  assumes "isSubmitKey e"
  shows "(editorInfo e = Some info \<and> contents info \<noteq> [] \<longrightarrow>
            issued Event_stopPropagation (snd (onEditCellKeyDown doc c e)) = 1
            \<and> issued Event_preventDefault (snd (onEditCellKeyDown doc c e)) = 1)
         \<and> (editorInfo e = None \<or> (editorInfo e = Some info \<and> contents info = []) \<longrightarrow>
            issued Event_stopPropagation (snd (onEditCellKeyDown doc c e)) = 0
            \<and> issued Event_preventDefault (snd (onEditCellKeyDown doc c e)) = 0)"
proof -
  have inside: "editorInfo e = Some info \<and> contents info \<noteq> [] \<longrightarrow>
            issued Event_stopPropagation (snd (onEditCellKeyDown doc c e)) = 1
            \<and> issued Event_preventDefault (snd (onEditCellKeyDown doc c e)) = 1"
  proof
    assume "editorInfo e = Some info \<and> contents info \<noteq> []"
    then have "editorInfo e = Some info" and "contents info \<noteq> []" by simp_all
    from onEditCellKeyDown_submit [OF assms this, of doc c]
    show "issued Event_stopPropagation (snd (onEditCellKeyDown doc c e)) = 1
            \<and> issued Event_preventDefault (snd (onEditCellKeyDown doc c e)) = 1"
      by (simp add: issued_def)
  qed
  have outside: "editorInfo e = None \<or> (editorInfo e = Some info \<and> contents info = []) \<longrightarrow>
            issued Event_stopPropagation (snd (onEditCellKeyDown doc c e)) = 0
            \<and> issued Event_preventDefault (snd (onEditCellKeyDown doc c e)) = 0"
  proof
    assume "editorInfo e = None \<or> (editorInfo e = Some info \<and> contents info = [])"
    then have "editorInfo e = None \<or> (\<exists>i. editorInfo e = Some i \<and> contents i = [])" by blast
    from onEditCellKeyDown_outside_guard [OF assms this, of doc c]
    show "issued Event_stopPropagation (snd (onEditCellKeyDown doc c e)) = 0
            \<and> issued Event_preventDefault (snd (onEditCellKeyDown doc c e)) = 0"
      by (simp add: issued_def)
  qed
  from inside outside show ?thesis by blast
qed

theorem editCellSubmit_stops_event_witness:
  "isSubmitKey (editorKey ''Enter'' True ''print(1)'')
   \<and> issued Event_stopPropagation (snd (onEditCellKeyDown (exampleDocument 11)
        (InteractiveCell_constructor exampleIds (exampleProps ''edit-cell'' None))
        (editorKey ''Enter'' True ''print(1)''))) = 1
   \<and> issued Event_preventDefault (snd (onEditCellKeyDown (exampleDocument 11)
        (InteractiveCell_constructor exampleIds (exampleProps ''edit-cell'' None))
        (editorKey ''Enter'' True ''print(1)''))) = 1
   \<and> isSubmitKey \<lparr>shiftKey = True, ctrlKey = False, metaKey = False, altKey = False, code = ''Enter'', editorInfo = None\<rparr>
   \<and> issued Event_stopPropagation (snd (onEditCellKeyDown (exampleDocument 11)
        (InteractiveCell_constructor exampleIds (exampleProps ''edit-cell'' None))
        \<lparr>shiftKey = True, ctrlKey = False, metaKey = False, altKey = False, code = ''Enter'', editorInfo = None\<rparr>)) = 0
   \<and> issued Event_preventDefault (snd (onEditCellKeyDown (exampleDocument 11)
        (InteractiveCell_constructor exampleIds (exampleProps ''edit-cell'' None))
        \<lparr>shiftKey = True, ctrlKey = False, metaKey = False, altKey = False, code = ''Enter'', editorInfo = None\<rparr>)) = 0
   \<and> isSubmitKey (editorKey ''Enter'' True [])
   \<and> issued Event_stopPropagation (snd (onEditCellKeyDown (exampleDocument 11)
        (InteractiveCell_constructor exampleIds (exampleProps ''edit-cell'' None))
        (editorKey ''Enter'' True []))) = 0
   \<and> issued Event_preventDefault (snd (onEditCellKeyDown (exampleDocument 11)
        (InteractiveCell_constructor exampleIds (exampleProps ''edit-cell'' None))
        (editorKey ''Enter'' True []))) = 0"
  using editCellSubmit_stops_event
      [of "editorKey ''Enter'' True ''print(1)''"
          "\<lparr>contents = ''print(1)'', isDirty = True, isSuggesting = False\<rparr>"
          "exampleDocument 11"
          "InteractiveCell_constructor exampleIds (exampleProps ''edit-cell'' None)"]
    editCellSubmit_stops_event
      [of "\<lparr>shiftKey = True, ctrlKey = False, metaKey = False, altKey = False, code = ''Enter'', editorInfo = None\<rparr>"
          "\<lparr>contents = [], isDirty = True, isSuggesting = False\<rparr>"
          "exampleDocument 11"
          "InteractiveCell_constructor exampleIds (exampleProps ''edit-cell'' None)"]
    editCellSubmit_stops_event
      [of "editorKey ''Enter'' True []"
          "\<lparr>contents = [], isDirty = True, isSuggesting = False\<rparr>"
          "exampleDocument 11"
          "InteractiveCell_constructor exampleIds (exampleProps ''edit-cell'' None)"]
  by (simp add: isSubmitKey_def editorKey_def)

text \<open>
  The two calls stand behind the same guard as the submission: a submit key pressed in an
  empty editor is neither stopped nor prevented.
\<close>

theorem editCellSubmit_event_not_stopped_counterexample:
  "isSubmitKey (editorKey ''Enter'' True [])
   \<and> Event_stopPropagation \<notin> set (snd (onEditCellKeyDown (exampleDocument 11)
        (InteractiveCell_constructor exampleIds (exampleProps ''c1'' None))
        (editorKey ''Enter'' True [])))
   \<and> Event_preventDefault \<notin> set (snd (onEditCellKeyDown (exampleDocument 11)
        (InteractiveCell_constructor exampleIds (exampleProps ''c1'' None))
        (editorKey ''Enter'' True [])))"
  by (simp add: isSubmitKey_def editorKey_def onEditCellKeyDown_def editCellSubmit_def)

section \<open>Escape moves the focus to the next tab stop\<close>

text \<open>
  Claim C8, as amended. On an escape key that carries the inner editor's info while the
  editor is not mid-suggestion, when the element that holds focus is itself a tab stop
  (an \<^verbatim>\<open>input\<close>, \<^verbatim>\<open>button\<close>, \<^verbatim>\<open>select\<close>, \<^verbatim>\<open>textarea\<close> or \<^verbatim>\<open>a[href]\<close> with a tab index that is
  not negative), the focus moves to the next tab stop in document order, and to the first
  tab stop when the focused element is the last one.
\<close>

theorem editCellEscape_moves_to_next_tab_stop:
  assumes "code e = ''Escape''" and "editorInfo e = Some info" and "\<not> isSuggesting info"
    and "activeElement doc = Some x" and "x \<in> set (tabStops doc)"
  shows "onEditCellKeyDown doc c e = (c, focusOn (nextTabStop doc x))
         \<and> nextTabStop doc x \<noteq> None"
  using assms findTabStop_forward [OF assms(5)] nextTabStop_some [OF assms(5)]
  by (simp add: onEditCellKeyDown_def editCellEscape_def focusOn_def split: option.split)

theorem editCellEscape_moves_to_next_tab_stop_witness:
  "code (editorKey ''Escape'' False ''x'') = ''Escape''
   \<and> activeElement (exampleDocument 11) = Some (exampleElement 11 ''textarea'' 0)
   \<and> exampleElement 11 ''textarea'' 0 \<in> set (tabStops (exampleDocument 11))
   \<and> onEditCellKeyDown (exampleDocument 11) (InteractiveCell_constructor exampleIds (exampleProps ''edit-cell'' None)) (editorKey ''Escape'' False ''x'')
       = ((InteractiveCell_constructor exampleIds (exampleProps ''edit-cell'' None)), [Element_focus (exampleElement 13 ''input'' 0)])
   \<and> activeElement (exampleDocument 13) = Some (exampleElement 13 ''input'' 0)
   \<and> exampleElement 13 ''input'' 0 \<in> set (tabStops (exampleDocument 13))
   \<and> onEditCellKeyDown (exampleDocument 13) (InteractiveCell_constructor exampleIds (exampleProps ''edit-cell'' None)) (editorKey ''Escape'' False ''x'')
       = ((InteractiveCell_constructor exampleIds (exampleProps ''edit-cell'' None)), [Element_focus (exampleElement 10 ''button'' 0)])"
proof -
  have a1: "activeElement (exampleDocument 11) = Some (exampleElement 11 ''textarea'' 0)"
    and a3: "activeElement (exampleDocument 13) = Some (exampleElement 13 ''input'' 0)"
    by (simp_all add: exampleDocument_def)
  have m1: "exampleElement 11 ''textarea'' 0 \<in> set (tabStops (exampleDocument 11))"
    and m3: "exampleElement 13 ''input'' 0 \<in> set (tabStops (exampleDocument 13))"
    by (simp_all add: exampleDocument_tabStops)
  have s: "\<not> isSuggesting \<lparr>contents = ''x'', isDirty = True, isSuggesting = False\<rparr>"
    by simp
  note at_first = editCellEscape_moves_to_next_tab_stop
      [OF editorKey_fields(1) editorKey_fields(3) s a1 m1, of "InteractiveCell_constructor exampleIds (exampleProps ''edit-cell'' None)"]
  note at_last = editCellEscape_moves_to_next_tab_stop
      [OF editorKey_fields(1) editorKey_fields(3) s a3 m3, of "InteractiveCell_constructor exampleIds (exampleProps ''edit-cell'' None)"]
  from at_first at_last a1 a3 m1 m3 show ?thesis
    by (simp add: exampleDocument_next focusOn_def editorKey_fields(1))
qed

text \<open>
  For an arbitrary focused element the claim fails. The handler looks the focused element
  up among the tab stops; an element that is not one of them, such as a text area with a
  negative tab index, is not found, and the focus goes to the first tab stop of the
  document even when a tab stop follows the focused element.
\<close>

theorem editCellEscape_focus_outside_tab_stops_counterexample:
  "code (editorKey ''Escape'' False ''x'') = ''Escape''
   \<and> activeElement untabbedEditorDocument = Some (exampleElement 21 ''textarea'' (- 1))
   \<and> nextTabStop untabbedEditorDocument (exampleElement 21 ''textarea'' (- 1))
       = Some (exampleElement 22 ''button'' 0)
   \<and> onEditCellKeyDown untabbedEditorDocument (InteractiveCell_constructor exampleIds (exampleProps ''edit-cell'' None)) (editorKey ''Escape'' False ''x'')
       = ((InteractiveCell_constructor exampleIds (exampleProps ''edit-cell'' None)), [Element_focus (exampleElement 20 ''button'' 0)])"
  by (simp add: editorKey_fields onEditCellKeyDown_def editCellEscape_def findTabStop_def
      querySelectorAll_def matchesFocusable_def untabbedEditorDocument_def exampleElement_def
      arrayAt_def nextTabStop_def elementsAfter_def tabStops_def Let_def)

section \<open>The input history belongs to the edit cell\<close>

text \<open>
  Claim C9. An instance constructed for the reserved edit-cell identity owns an input
  history from its construction on, a fresh and empty one; an instance constructed for
  any other identity owns none. Whatever events the instance handles afterwards, it owns
  an input history exactly when it was constructed for the edit-cell identity: no event
  creates a history or drops one. The identity of its cell stays the one it was
  constructed for as long as the props it receives are props for that cell.
\<close>

theorem inputHistory_exists_iff_edit_cell:
  "inputHistory (InteractiveCell_constructor ids prop)
     = (if cell_id (cell (cellVM prop)) = EditCellId ids then Some InputHistory_new else None)
   \<and> (inputHistory (runEvents ids deq (InteractiveCell_constructor ids prop) evs) \<noteq> None)
       = (cell_id (cell (cellVM prop)) = EditCellId ids)
   \<and> ((\<forall>ev \<in> set evs. keepsIdentity (cell_id (cell (cellVM prop))) ev) \<longrightarrow>
        cell_id (getCell (runEvents ids deq (InteractiveCell_constructor ids prop) evs))
          = cell_id (cell (cellVM prop)))"
proof -
  let ?c = "InteractiveCell_constructor ids prop"
  have made: "inputHistory ?c
     = (if cell_id (cell (cellVM prop)) = EditCellId ids then Some InputHistory_new else None)"
    by (simp add: InteractiveCell_constructor_def)
  have ident: "cell_id (getCell ?c) = cell_id (cell (cellVM prop))"
    by (simp add: InteractiveCell_constructor_def getCell_def)
  have "(inputHistory (runEvents ids deq ?c evs) \<noteq> None) = (inputHistory ?c \<noteq> None)"
    by (simp add: runEvents_history)
  with made have kept: "(inputHistory (runEvents ids deq ?c evs) \<noteq> None)
       = (cell_id (cell (cellVM prop)) = EditCellId ids)" by simp
  from made kept runEvents_identity [of evs ?c ids deq] ident show ?thesis by simp
qed

theorem inputHistory_exists_iff_edit_cell_witness:
  "inputHistory (InteractiveCell_constructor exampleIds (exampleProps ''edit-cell'' None))
     = Some InputHistory_new
   \<and> inputHistory (runEvents exampleIds (\<lambda>a b. a = b)
         (InteractiveCell_constructor exampleIds (exampleProps ''edit-cell'' None))
         (exampleEvents ''edit-cell'')) \<noteq> None
   \<and> cell_id (getCell (runEvents exampleIds (\<lambda>a b. a = b)
         (InteractiveCell_constructor exampleIds (exampleProps ''edit-cell'' None))
         (exampleEvents ''edit-cell''))) = ''edit-cell''
   \<and> inputHistory (InteractiveCell_constructor exampleIds (exampleProps ''c1'' None)) = None
   \<and> inputHistory (runEvents exampleIds (\<lambda>a b. a = b)
         (InteractiveCell_constructor exampleIds (exampleProps ''c1'' None))
         (exampleEvents ''c1'')) = None"
  using inputHistory_exists_iff_edit_cell
      [of exampleIds "exampleProps ''edit-cell'' None" "\<lambda>a b. a = b" "exampleEvents ''edit-cell''"]
    inputHistory_exists_iff_edit_cell
      [of exampleIds "exampleProps ''c1'' None" "\<lambda>a b. a = b" "exampleEvents ''c1''"]
    exampleEvents_keep [of "''edit-cell''"]
  by (simp add: exampleProps_identity exampleIds_fields)

section \<open>The visibility scan changes nothing but the quick-edit flag\<close>

text \<open>
  Claim C10. A state update issued by the visibility scan carries a cell list of the
  length of the current one in which, position by position, the cell is either the
  current cell or the current cell with its quick-edit flag cleared, the latter only for
  a quick-edit cell whose mounted container intersects the visible band; so every other
  field of every cell, every cell that is not promoted, and the length and the order of
  the list are unchanged. When no quick-edit cell intersects the band, the scan issues no
  state update; and it never issues anything but at most one such update.
\<close>

theorem updateVisibleCells_frame:
  "(SetState_cellVMs vms' \<in> set (updateVisibleCells ed) \<longrightarrow>
      (\<exists>panel. contentPanelScrollRef ed = Some panel
         \<and> length vms' = length (cellVMs ed)
         \<and> (\<forall>i < length (cellVMs ed).
               vms' ! i = cellVMs ed ! i
               \<or> (becomesVisible ed (visibleBand panel) (cellVMs ed ! i)
                   \<and> vms' ! i = (cellVMs ed ! i)\<lparr>useQuickEdit := False\<rparr>))))
   \<and> ((\<forall>panel. contentPanelScrollRef ed = Some panel \<longrightarrow>
          (\<forall>vm \<in> set (cellVMs ed). \<not> becomesVisible ed (visibleBand panel) vm))
        \<longrightarrow> updateVisibleCells ed = [])
   \<and> (updateVisibleCells ed = [] \<or> (\<exists>vms. updateVisibleCells ed = [SetState_cellVMs vms]))"
proof (cases "contentPanelScrollRef ed")
  case None
  then show ?thesis by (simp add: updateVisibleCells_def)
next
  case (Some panel)
  let ?vt = "offsetTop panel + scrollTop panel"
  let ?vb = "offsetTop panel + scrollTop panel + clientHeight panel"
  obtain r m where scan: "scanCells ed ?vt ?vb (cellVMs ed) False = (r, m)"
    by (cases "scanCells ed ?vt ?vb (cellVMs ed) False")
  note frame = scanCells_frame [OF scan]
  have band: "visibleBand panel = (?vt, ?vb)" by (simp add: visibleBand_def)
  have upd: "updateVisibleCells ed =
      (if cellContainerRefs ed = [] then [] else if m then [SetState_cellVMs r] else [])"
    using Some scan by (simp add: updateVisibleCells_def Let_def)
  from frame have rel: "list_all2 (\<lambda>a b. b = a \<or> (becomesVisible ed (visibleBand panel) a
      \<and> b = a\<lparr>useQuickEdit := False\<rparr>)) (cellVMs ed) r" by (simp add: band)
  then have len: "length r = length (cellVMs ed)" by (simp add: list_all2_lengthD)
  have each: "\<forall>i < length (cellVMs ed). r ! i = cellVMs ed ! i
      \<or> (becomesVisible ed (visibleBand panel) (cellVMs ed ! i)
          \<and> r ! i = (cellVMs ed ! i)\<lparr>useQuickEdit := False\<rparr>)"
    using list_all2_nthD [OF rel] by blast
  have A: "SetState_cellVMs vms' \<in> set (updateVisibleCells ed) \<longrightarrow>
      (\<exists>panel. contentPanelScrollRef ed = Some panel
         \<and> length vms' = length (cellVMs ed)
         \<and> (\<forall>i < length (cellVMs ed).
               vms' ! i = cellVMs ed ! i
               \<or> (becomesVisible ed (visibleBand panel) (cellVMs ed ! i)
                   \<and> vms' ! i = (cellVMs ed ! i)\<lparr>useQuickEdit := False\<rparr>)))"
  proof
    assume "SetState_cellVMs vms' \<in> set (updateVisibleCells ed)"
    with upd have "vms' = r" by (auto split: if_splits)
    with Some len each show "\<exists>panel. contentPanelScrollRef ed = Some panel
         \<and> length vms' = length (cellVMs ed)
         \<and> (\<forall>i < length (cellVMs ed).
               vms' ! i = cellVMs ed ! i
               \<or> (becomesVisible ed (visibleBand panel) (cellVMs ed ! i)
                   \<and> vms' ! i = (cellVMs ed ! i)\<lparr>useQuickEdit := False\<rparr>))" by blast
  qed
  have B: "(\<forall>panel. contentPanelScrollRef ed = Some panel \<longrightarrow>
          (\<forall>vm \<in> set (cellVMs ed). \<not> becomesVisible ed (visibleBand panel) vm))
        \<longrightarrow> updateVisibleCells ed = []"
    using frame upd Some band by auto
  have C: "updateVisibleCells ed = [] \<or> (\<exists>vms. updateVisibleCells ed = [SetState_cellVMs vms])"
    using upd by simp
  from A B C show ?thesis by blast
qed

theorem updateVisibleCells_frame_witness:
  "SetState_cellVMs [exampleVM ''c1'' True, exampleVM ''c2'' False]
       \<in> set (updateVisibleCells (exampleEditor 0 120))
   \<and> length [exampleVM ''c1'' True, exampleVM ''c2'' False] = length (cellVMs (exampleEditor 0 120))
   \<and> [exampleVM ''c1'' True, exampleVM ''c2'' False] ! 0 = cellVMs (exampleEditor 0 120) ! 0
   \<and> [exampleVM ''c1'' True, exampleVM ''c2'' False] ! 1
       = (cellVMs (exampleEditor 0 120) ! 1)\<lparr>useQuickEdit := False\<rparr>
   \<and> updateVisibleCells (exampleEditor 0 20) = []"
proof -
  have upd: "updateVisibleCells (exampleEditor 0 120)
      = [SetState_cellVMs [exampleVM ''c1'' True, exampleVM ''c2'' False]]"
    by (simp add: updateVisibleCells_def exampleEditor_def visitCell_def Map_has_def
        exampleVM_def exampleCell_def exampleBox_def Let_def)
  have none: "\<forall>panel. contentPanelScrollRef (exampleEditor 0 20) = Some panel \<longrightarrow>
      (\<forall>vm \<in> set (cellVMs (exampleEditor 0 20)).
         \<not> becomesVisible (exampleEditor 0 20) (visibleBand panel) vm)"
    by (simp add: exampleEditor_parts exampleEditor_visible)
  show ?thesis
    using updateVisibleCells_frame
        [of "[exampleVM ''c1'' True, exampleVM ''c2'' False]" "exampleEditor 0 120"]
      updateVisibleCells_frame [of "[]" "exampleEditor 0 20"] upd none
    by (simp add: exampleEditor_parts exampleVM_promoted)
qed

end
